theory Spec2Isabelle
  imports Complex_Main "HOL-Library.Multiset"
begin

section \<open>Data model\<close>

text \<open>
  The documents of the two collections, as they lie in the store. A recipe document may
  hold a \<^verbatim>\<open>ratings\<close> array whether or not the schema that loads it declares the path (see
  the two copies of the schema below).

  An ObjectId is an opaque identifier compared through its string form; a natural number
  stands for it. Dates are milliseconds since the epoch. Numbers that the handlers only
  compare, add or count (times, calories, ratings) are integers. A string is a sequence
  of code units below 256.
\<close>

type_synonym objectId = nat
type_synonym date = nat

record ingredient =
  name :: string
  amount :: string

record instruction =
  step :: int
  step_description :: string

record rating_doc =
  rating_user :: objectId
  rating :: int
  rating_createdAt :: date

record comment_doc =
  comment_user :: objectId
  comment_text :: string
  comment_createdAt :: date

record recipe =
  recipe_id :: objectId
  title :: string
  description :: string
  image :: string
  ingredients :: "ingredient list"
  instructions :: "instruction list"
  prepTime :: int
  cookTime :: int
  servings :: int
  calories :: "int option"
  difficulty :: string
  cuisine :: string
  diet :: string
  author :: objectId
  ratings :: "rating_doc list"
  comments :: "comment_doc list"
  tags :: "string list"
  createdAt :: date
  updatedAt :: date

text \<open>
  Modelled from the spec: the User schema (models/User.js) is not among the sources. The
  handlers use a user's identifier and its \<^verbatim>\<open>favoriteRecipes\<close> array of recipe references;
  username, avatar and bio are the profile fields the spec lists.
\<close>

record user =
  user_id :: objectId
  username :: string
  avatar :: string
  bio :: string
  favoriteRecipes :: "objectId list"

text \<open>The database: the two collections, each in insertion order.\<close>

record store =
  recipes :: "recipe list"
  users :: "user list"

text \<open>
  What a handler answers when it does not answer 200/201: the 400 of a failed
  express-validator chain, the 404 \<^verbatim>\<open>Recipe not found\<close>, the 400
  \<^verbatim>\<open>Recipe already in favorites\<close>, and the 500 of the \<^verbatim>\<open>catch\<close> block.
\<close>

datatype failure = ValidationFailed | RecipeNotFound | AlreadyFavorited | ServerError

section \<open>The two copies of the Recipe schema\<close>

text \<open>
  The sources hold two copies of the Recipe schema. \<^verbatim>\<open>routes/recipes.js\<close> requires
  \<^verbatim>\<open>'../models/Recipe'\<close>, that is \<^verbatim>\<open>models/Recipe.js\<close>: this copy declares neither the
  \<^verbatim>\<open>ratings\<close> path nor the \<^verbatim>\<open>averageRating\<close> virtual. The other copy, whose path is not
  known, declares both and is the same otherwise. The handlers below take the schema as
  an argument; \<open>rate\<close> and \<open>createRecipe\<close> are the handlers with the schema the routes
  require.

  A document exposes the declared paths only: through \<^verbatim>\<open>models/Recipe.js\<close> the property
  \<^verbatim>\<open>recipe.ratings\<close> is \<^verbatim>\<open>undefined\<close>, and the constructor (strict mode) drops a \<^verbatim>\<open>ratings\<close>
  key of its argument.
\<close>

datatype recipe_schema = ModelsRecipe | UnnamedCopy

fun declaresRatings :: "recipe_schema \<Rightarrow> bool" where
  "declaresRatings ModelsRecipe = False"
| "declaresRatings UnnamedCopy = True"

text \<open>\<^verbatim>\<open>recipe.ratings\<close> of a document loaded through the schema; \<open>None\<close> is \<^verbatim>\<open>undefined\<close>.\<close>

definition ratingsProperty :: "recipe_schema \<Rightarrow> recipe \<Rightarrow> rating_doc list option" where
  "ratingsProperty schema r = (if declaresRatings schema then Some (ratings r) else None)"

section \<open>Store access\<close>

definition findRecipeById :: "store \<Rightarrow> objectId \<Rightarrow> recipe option" where
  "findRecipeById st i = find (\<lambda>r. recipe_id r = i) (recipes st)"

definition findUserById :: "store \<Rightarrow> objectId \<Rightarrow> user option" where
  "findUserById st i = find (\<lambda>u. user_id u = i) (users st)"

text \<open>\<^verbatim>\<open>doc.save()\<close> of a document that was fetched: the stored copy is replaced.\<close>

definition saveRecipe :: "store \<Rightarrow> recipe \<Rightarrow> store" where
  "saveRecipe st r =
     st\<lparr>recipes := map (\<lambda>x. if recipe_id x = recipe_id r then r else x) (recipes st)\<rparr>"

definition saveUser :: "store \<Rightarrow> user \<Rightarrow> store" where
  "saveUser st u =
     st\<lparr>users := map (\<lambda>x. if user_id x = user_id u then u else x) (users st)\<rparr>"

section \<open>Rating a recipe\<close>

text \<open>
  \<^verbatim>\<open>existingRating.rating = req.body.rating\<close> writes through the reference that
  \<^verbatim>\<open>Array.prototype.find\<close> returned: the first entry that satisfies the test changes,
  every other entry stays.
\<close>

primrec updateFirst :: "('a \<Rightarrow> bool) \<Rightarrow> ('a \<Rightarrow> 'a) \<Rightarrow> 'a list \<Rightarrow> 'a list" where
  "updateFirst P f [] = []"
| "updateFirst P f (x # xs) = (if P x then f x # xs else x # updateFirst P f xs)"

definition validRating :: "int \<Rightarrow> bool" where
  "validRating v = (1 \<le> v \<and> v \<le> 5)"

definition rateRatings :: "objectId \<Rightarrow> int \<Rightarrow> date \<Rightarrow> rating_doc list \<Rightarrow> rating_doc list" where
  "rateRatings uid v now rs =
     (case find (\<lambda>e. rating_user e = uid) rs of
        Some existingRating \<Rightarrow>
          updateFirst (\<lambda>e. rating_user e = uid) (\<lambda>e. e\<lparr>rating := v\<rparr>) rs
      | None \<Rightarrow> rs @ [\<lparr>rating_user = uid, rating = v, rating_createdAt = now\<rparr>])"

text \<open>
  \<^verbatim>\<open>POST /:id/rate\<close>. The arguments are the schema, the store, the clock (for the default
  of \<^verbatim>\<open>createdAt\<close>), the id of the route, the authenticated user and the rating of the
  body. The result is the answer and the store afterwards. Where \<^verbatim>\<open>recipe.ratings\<close> is
  \<^verbatim>\<open>undefined\<close>, the call of \<^verbatim>\<open>find\<close> on it throws a TypeError and the \<^verbatim>\<open>catch\<close> block
  answers 500 before anything is written.
\<close>

definition rateWith ::
  "recipe_schema \<Rightarrow> store \<Rightarrow> date \<Rightarrow> objectId \<Rightarrow> objectId \<Rightarrow> int \<Rightarrow> (failure + string) \<times> store" where
  "rateWith schema st now rid uid v =
     (if \<not> validRating v then (Inl ValidationFailed, st)
      else case findRecipeById st rid of
        None \<Rightarrow> (Inl RecipeNotFound, st)
      | Some r \<Rightarrow>
          (case ratingsProperty schema r of
             None \<Rightarrow> (Inl ServerError, st)
           | Some rs \<Rightarrow>
               (Inr ''Recipe rated successfully'',
                saveRecipe st (r\<lparr>ratings := rateRatings uid v now rs\<rparr>))))"

text \<open>The handler as the routes wire it.\<close>

definition rate :: "store \<Rightarrow> date \<Rightarrow> objectId \<Rightarrow> objectId \<Rightarrow> int \<Rightarrow> (failure + string) \<times> store" where
  "rate st now rid uid v = rateWith ModelsRecipe st now rid uid v"

text \<open>The rating entries of one user in a ratings list.\<close>

definition ratingsOf :: "objectId \<Rightarrow> rating_doc list \<Rightarrow> rating_doc list" where
  "ratingsOf uid rs = filter (\<lambda>e. rating_user e = uid) rs"

section \<open>Commenting\<close>

text \<open>
  The white space and line terminator code units below 256, which
  \<^verbatim>\<open>String.prototype.trim\<close> and \<^verbatim>\<open>parseInt\<close> strip: tab, line feed, vertical tab, form
  feed, carriage return, space and no-break space. \<open>trim\<close> is \<^verbatim>\<open>trim: true\<close> of a schema
  path.
\<close>

definition isWhiteSpace :: "char \<Rightarrow> bool" where
  "isWhiteSpace c =
     (c \<in> {CHR '' '', CHR 0x09, CHR 0x0A, CHR 0x0B, CHR 0x0C, CHR 0x0D, CHR 0xA0})"

definition trim :: "string \<Rightarrow> string" where
  "trim s = rev (dropWhile isWhiteSpace (rev (dropWhile isWhiteSpace s)))"


section \<open>Favorites\<close>

text \<open>
  \<^verbatim>\<open>POST /:id/favorite\<close> and \<^verbatim>\<open>DELETE /:id/favorite\<close>. The user is the one the auth
  middleware attached to the request; were its document gone, \<^verbatim>\<open>user.favoriteRecipes\<close>
  would throw on \<^verbatim>\<open>null\<close> and the \<^verbatim>\<open>catch\<close> block would answer 500. The \<^verbatim>\<open>includes\<close> of
  a Mongoose array compares ObjectIds by value.
\<close>

definition addFavorite :: "store \<Rightarrow> objectId \<Rightarrow> objectId \<Rightarrow> (failure + string) \<times> store" where
  "addFavorite st rid uid =
     (case findRecipeById st rid of
        None \<Rightarrow> (Inl RecipeNotFound, st)
      | Some r \<Rightarrow>
          (case findUserById st uid of
             None \<Rightarrow> (Inl ServerError, st)
           | Some u \<Rightarrow>
               if recipe_id r \<in> set (favoriteRecipes u) then (Inl AlreadyFavorited, st)
               else (Inr ''Recipe added to favorites'',
                     saveUser st (u\<lparr>favoriteRecipes := favoriteRecipes u @ [recipe_id r]\<rparr>))))"

definition removeFavorite :: "store \<Rightarrow> objectId \<Rightarrow> objectId \<Rightarrow> (failure + string) \<times> store" where
  "removeFavorite st rid uid =
     (case findUserById st uid of
        None \<Rightarrow> (Inl ServerError, st)
      | Some u \<Rightarrow>
          (Inr ''Recipe removed from favorites'',
           saveUser st (u\<lparr>favoriteRecipes := filter (\<lambda>i. i \<noteq> rid) (favoriteRecipes u)\<rparr>)))"

section \<open>Creating a recipe\<close>

text \<open>
  The body of \<^verbatim>\<open>POST /\<close>. The handler spreads the whole body into the constructor
  (\<^verbatim>\<open>{...req.body, author: req.user._id}\<close>), so every path that the schema declares can be
  supplied by the client, the sub-document array \<^verbatim>\<open>comments\<close> and the timestamps
  included; only \<^verbatim>\<open>author\<close> is overwritten. A \<^verbatim>\<open>ratings\<close> array of the body is kept by
  the copy of the schema that declares the path and dropped by \<^verbatim>\<open>models/Recipe.js\<close>.
  Paths with a default (\<^verbatim>\<open>_id\<close>, the dates) are optional here. A required string that
  is missing is the empty string, which the validators treat alike.
\<close>

record rating_body =
  rb_user :: objectId
  rb_rating :: int
  rb_createdAt :: "date option"

record comment_body =
  cb_user :: objectId
  cb_text :: string
  cb_createdAt :: "date option"

record recipe_body =
  b_id :: "objectId option"
  b_title :: string
  b_description :: string
  b_image :: string
  b_ingredients :: "ingredient list"
  b_instructions :: "instruction list"
  b_prepTime :: int
  b_cookTime :: int
  b_servings :: int
  b_calories :: "int option"
  b_difficulty :: string
  b_cuisine :: string
  b_diet :: string
  b_ratings :: "rating_body list"
  b_comments :: "comment_body list"
  b_tags :: "string list"
  b_createdAt :: "date option"
  b_updatedAt :: "date option"

definition difficulties :: "string list" where
  "difficulties = [''Easy'', ''Medium'', ''Hard'']"

definition diets :: "string list" where
  "diets = [''Vegetarian'', ''Vegan'', ''Gluten-Free'', ''Keto'', ''Paleo'', ''Regular'']"

text \<open>The express-validator chain of the route.\<close>

definition validBody :: "recipe_body \<Rightarrow> bool" where
  "validBody b =
     (b_title b \<noteq> [] \<and> b_description b \<noteq> [] \<and>
      length (b_ingredients b) \<ge> 1 \<and> length (b_instructions b) \<ge> 1 \<and>
      b_difficulty b \<in> set difficulties \<and> b_cuisine b \<noteq> [] \<and> b_diet b \<in> set diets)"

text \<open>
  \<^verbatim>\<open>new Recipe(recipeData)\<close>: undeclared paths dropped, setters (trim) and defaults
  applied.
\<close>

definition dateOr :: "date \<Rightarrow> date option \<Rightarrow> date" where
  "dateOr now d = (case d of None \<Rightarrow> now | Some t \<Rightarrow> t)"

definition newRecipeWith ::
  "recipe_schema \<Rightarrow> objectId \<Rightarrow> date \<Rightarrow> objectId \<Rightarrow> recipe_body \<Rightarrow> recipe" where
  "newRecipeWith schema newId now uid b =
     \<lparr>recipe_id = (case b_id b of None \<Rightarrow> newId | Some i \<Rightarrow> i),
      title = trim (b_title b),
      description = b_description b,
      image = b_image b,
      ingredients = map (\<lambda>i. \<lparr>name = trim (name i), amount = trim (amount i)\<rparr>) (b_ingredients b),
      instructions =
        map (\<lambda>i. \<lparr>step = step i, step_description = trim (step_description i)\<rparr>) (b_instructions b),
      prepTime = b_prepTime b,
      cookTime = b_cookTime b,
      servings = b_servings b,
      calories = b_calories b,
      difficulty = b_difficulty b,
      cuisine = trim (b_cuisine b),
      diet = b_diet b,
      author = uid,
      ratings =
        (if declaresRatings schema
         then map (\<lambda>e. \<lparr>rating_user = rb_user e, rating = rb_rating e,
                        rating_createdAt = dateOr now (rb_createdAt e)\<rparr>) (b_ratings b)
         else []),
      comments =
        map (\<lambda>e. \<lparr>comment_user = cb_user e, comment_text = trim (cb_text e),
                   comment_createdAt = dateOr now (cb_createdAt e)\<rparr>) (b_comments b),
      tags = map trim (b_tags b),
      createdAt = dateOr now (b_createdAt b),
      updatedAt = dateOr now (b_updatedAt b)\<rparr>"

definition newRecipe :: "objectId \<Rightarrow> date \<Rightarrow> objectId \<Rightarrow> recipe_body \<Rightarrow> recipe" where
  "newRecipe newId now uid b = newRecipeWith ModelsRecipe newId now uid b"

text \<open>The validators of the schema, which \<^verbatim>\<open>save()\<close> runs on the new document.\<close>

definition validRecipe :: "recipe \<Rightarrow> bool" where
  "validRecipe r =
     (title r \<noteq> [] \<and> length (title r) \<le> 100 \<and>
      description r \<noteq> [] \<and> length (description r) \<le> 1000 \<and>
      image r \<noteq> [] \<and>
      list_all (\<lambda>i. name i \<noteq> [] \<and> amount i \<noteq> []) (ingredients r) \<and>
      list_all (\<lambda>i. step_description i \<noteq> []) (instructions r) \<and>
      prepTime r \<ge> 0 \<and> cookTime r \<ge> 0 \<and> servings r \<ge> 1 \<and>
      (case calories r of None \<Rightarrow> True | Some c \<Rightarrow> c \<ge> 0) \<and>
      difficulty r \<in> set difficulties \<and> cuisine r \<noteq> [] \<and> diet r \<in> set diets \<and>
      list_all (\<lambda>e. 1 \<le> rating e \<and> rating e \<le> 5) (ratings r) \<and>
      list_all (\<lambda>c. comment_text c \<noteq> [] \<and> length (comment_text c) \<le> 500) (comments r))"

text \<open>
  \<^verbatim>\<open>POST /\<close>. The arguments after the schema and the store are the ObjectId the driver
  would generate, the clock, the authenticated user and the body. A failed schema
  validation and a duplicate \<^verbatim>\<open>_id\<close> both make \<^verbatim>\<open>save()\<close> throw (500).
\<close>

definition createRecipeWith ::
  "recipe_schema \<Rightarrow> store \<Rightarrow> objectId \<Rightarrow> date \<Rightarrow> objectId \<Rightarrow> recipe_body
     \<Rightarrow> (failure + recipe) \<times> store" where
  "createRecipeWith schema st newId now uid b =
     (if \<not> validBody b then (Inl ValidationFailed, st)
      else let r = newRecipeWith schema newId now uid b
           in if \<not> validRecipe r \<or> findRecipeById st (recipe_id r) \<noteq> None
              then (Inl ServerError, st)
              else (Inr r, st\<lparr>recipes := recipes st @ [r]\<rparr>))"

text \<open>The handler as the routes wire it.\<close>

definition createRecipe ::
  "store \<Rightarrow> objectId \<Rightarrow> date \<Rightarrow> objectId \<Rightarrow> recipe_body \<Rightarrow> (failure + recipe) \<times> store" where
  "createRecipe st newId now uid b = createRecipeWith ModelsRecipe st newId now uid b"

section \<open>Numbers\<close>

text \<open>
  JavaScript Numbers are IEEE 754 doubles. Integers up to \<open>2^53\<close> and their sums are
  exact, so they stay integers here. A quotient is not: \<^verbatim>\<open>sum / length\<close> is the double
  nearest to the exact quotient, ties going to the even significand. \<open>nearestDouble\<close>
  computes that double, as the rational number it denotes, for a rational in the range
  of normal doubles (the quotient of two positive integers below \<open>2^53\<close> always is).
\<close>

fun log2floor :: "nat \<Rightarrow> nat" where
  "log2floor n = (if n < 2 then 0 else Suc (log2floor (n div 2)))"

declare log2floor.simps [simp del]

text \<open>The exponent \<open>e\<close> of a positive rational: \<open>2^e \<le> q < 2^(e+1)\<close>.\<close>

definition binade :: "rat \<Rightarrow> int" where
  "binade q =
     (if q \<ge> 1 then int (log2floor (nat \<lfloor>q\<rfloor>))
      else - int (Suc (log2floor (nat (\<lceil>1 / q\<rceil> - 1)))))"

definition pow2 :: "int \<Rightarrow> rat" where
  "pow2 k = (if k \<ge> 0 then 2 ^ nat k else 1 / 2 ^ nat (- k))"

definition roundHalfEven :: "rat \<Rightarrow> int" where
  "roundHalfEven x =
     (let f = \<lfloor>x\<rfloor>; d = x - of_int f
      in if d < 1 / 2 then f
         else if d > 1 / 2 then f + 1
         else if even f then f else f + 1)"

definition nearestDouble :: "rat \<Rightarrow> rat" where
  "nearestDouble q =
     (if q = 0 then 0
      else if q < 0 then - (let ulp = pow2 (binade (- q) - 52)
                            in of_int (roundHalfEven (- q / ulp)) * ulp)
      else let ulp = pow2 (binade q - 52)
           in of_int (roundHalfEven (q / ulp)) * ulp)"

text \<open>
  The Number that stands for an integer: the integer itself up to \<open>2^53\<close>, the nearest
  double beyond. (An integer beyond the range of the doubles, \<open>1.8 * 10^308\<close> and more,
  is \<^verbatim>\<open>Infinity\<close> in JavaScript; it is rounded like the others here.)
\<close>

definition toNumber :: "int \<Rightarrow> int" where
  "toNumber n = \<lfloor>nearestDouble (of_int n)\<rfloor>"

section \<open>Query parameters\<close>

text \<open>
  \<^verbatim>\<open>req.query\<close> of the listing: every parameter is absent (\<^verbatim>\<open>undefined\<close>) or a string.
\<close>

record query =
  q_page :: "string option"
  q_limit :: "string option"
  q_cuisine :: "string option"
  q_diet :: "string option"
  q_difficulty :: "string option"
  q_search :: "string option"
  q_maxPrepTime :: "string option"
  q_maxCookTime :: "string option"
  q_maxCalories :: "string option"
  q_ingredients :: "string option"

text \<open>
  The result of \<^verbatim>\<open>parseInt\<close>: \<^verbatim>\<open>NaN\<close> or an integer-valued Number.
\<close>

datatype number = NaN | Num int

definition digitValue :: "char \<Rightarrow> nat option" where
  "digitValue c =
     (let n = (of_char c :: nat)
      in if 48 \<le> n \<and> n \<le> 57 then Some (n - 48)
         else if 97 \<le> n \<and> n \<le> 122 then Some (n - 87)
         else if 65 \<le> n \<and> n \<le> 90 then Some (n - 55)
         else None)"

text \<open>The longest prefix of digits of the radix, as their values.\<close>

fun leadingDigits :: "nat \<Rightarrow> string \<Rightarrow> nat list" where
  "leadingDigits radix [] = []"
| "leadingDigits radix (c # cs) =
     (case digitValue c of
        None \<Rightarrow> []
      | Some d \<Rightarrow> if d < radix then d # leadingDigits radix cs else [])"

text \<open>
  \<^verbatim>\<open>parseInt(string)\<close> with no radix: leading white space is skipped, a sign is read, a
  prefix \<^verbatim>\<open>0x\<close> or \<^verbatim>\<open>0X\<close> selects radix 16, the longest prefix of digits is the value and
  whatever follows it is ignored; with no digit at all the result is \<^verbatim>\<open>NaN\<close>. The result
  is the Number for the integer read.
\<close>

definition parseIntString :: "string \<Rightarrow> number" where
  "parseIntString s =
     (let s1 = dropWhile isWhiteSpace s;
          sign = (case s1 of c # t \<Rightarrow> if c = CHR ''-'' then - 1 else 1 | [] \<Rightarrow> (1::int));
          s2 = (case s1 of c # t \<Rightarrow> if c = CHR ''-'' \<or> c = CHR ''+'' then t else s1 | [] \<Rightarrow> s1);
          hex = (case s2 of
                   c # x # t \<Rightarrow> c = CHR ''0'' \<and> (x = CHR ''x'' \<or> x = CHR ''X'')
                 | _ \<Rightarrow> False);
          radix = (if hex then 16 else 10);
          ds = leadingDigits radix (if hex then drop 2 s2 else s2)
      in if ds = [] then NaN
         else Num (toNumber (sign * int (foldl (\<lambda>a d. a * radix + d) 0 ds))))"

text \<open>Applied to a parameter: \<^verbatim>\<open>parseInt(undefined)\<close> is \<^verbatim>\<open>NaN\<close>.\<close>

definition parseInt :: "string option \<Rightarrow> number" where
  "parseInt p = (case p of None \<Rightarrow> NaN | Some s \<Rightarrow> parseIntString s)"

text \<open>\<^verbatim>\<open>n || d\<close> on numbers: \<^verbatim>\<open>NaN\<close> and \<^verbatim>\<open>0\<close> are falsy.\<close>

definition orDefault :: "number \<Rightarrow> int \<Rightarrow> int" where
  "orDefault n d = (case n of NaN \<Rightarrow> d | Num k \<Rightarrow> if k = 0 then d else k)"

text \<open>
  \<^verbatim>\<open>if (req.query.x) ...\<close>: the branch is taken for a string that is not empty, with that
  string; \<^verbatim>\<open>undefined\<close> and the empty string are falsy.
\<close>

definition whenTruthy :: "string option \<Rightarrow> (string \<Rightarrow> 'a list) \<Rightarrow> 'a list" where
  "whenTruthy p f = (case p of None \<Rightarrow> [] | Some s \<Rightarrow> if s = [] then [] else f s)"

text \<open>\<^verbatim>\<open>str.split(',')\<close>.\<close>

fun split :: "char \<Rightarrow> string \<Rightarrow> string list" where
  "split sep [] = [[]]"
| "split sep (c # cs) =
     (if c = sep then [] # split sep cs
      else case split sep cs of w # ws \<Rightarrow> (c # w) # ws | [] \<Rightarrow> [[c]])"

section \<open>The filter object\<close>

text \<open>
  The query document handed to \<^verbatim>\<open>Recipe.find\<close>: the paths the handler can set, each with
  its condition, in the order of the assignments.
\<close>

datatype path = Cuisine | Diet | Difficulty | Text | PrepTime | CookTime | Calories | IngredientsName

datatype condition = Eq string | Search string | Lte number | In "string list"

type_synonym filter_doc = "(path \<times> condition) list"

definition buildFilter :: "query \<Rightarrow> filter_doc" where
  "buildFilter q =
     whenTruthy (q_cuisine q) (\<lambda>s. [(Cuisine, Eq s)]) @
     whenTruthy (q_diet q) (\<lambda>s. [(Diet, Eq s)]) @
     whenTruthy (q_difficulty q) (\<lambda>s. [(Difficulty, Eq s)]) @
     whenTruthy (q_search q) (\<lambda>s. [(Text, Search s)]) @
     whenTruthy (q_maxPrepTime q) (\<lambda>s. [(PrepTime, Lte (parseIntString s))]) @
     whenTruthy (q_maxCookTime q) (\<lambda>s. [(CookTime, Lte (parseIntString s))]) @
     whenTruthy (q_maxCalories q) (\<lambda>s. [(Calories, Lte (parseIntString s))]) @
     whenTruthy (q_ingredients q) (\<lambda>s. [(IngredientsName, In (split CHR '','' s))])"

text \<open>
  What the store does with a query document. A document matches when it satisfies the
  condition of every path of the filter. Equality on a string path is exact; \<^verbatim>\<open>$lte\<close>
  compares numbers, is false for a missing field and for \<^verbatim>\<open>NaN\<close>; \<^verbatim>\<open>$in\<close> on
  \<^verbatim>\<open>ingredients.name\<close> asks for some ingredient whose name is in the list. Mongoose
  applies the setters of a path to the values of its condition before the query is
  sent, so the values for \<^verbatim>\<open>cuisine\<close> and \<^verbatim>\<open>ingredients.name\<close> (declared \<^verbatim>\<open>trim: true\<close>) are
  trimmed. The text index (title, description, ingredient names) is the store's own:
  \<open>txt s r\<close> says whether recipe \<open>r\<close> matches the search string \<open>s\<close>.
\<close>

fun lte :: "int \<Rightarrow> number \<Rightarrow> bool" where
  "lte x NaN = False"
| "lte x (Num n) = (x \<le> n)"

fun holds :: "(string \<Rightarrow> recipe \<Rightarrow> bool) \<Rightarrow> recipe \<Rightarrow> path \<times> condition \<Rightarrow> bool" where
  "holds txt r (Cuisine, Eq s) = (cuisine r = trim s)"
| "holds txt r (Diet, Eq s) = (diet r = s)"
| "holds txt r (Difficulty, Eq s) = (difficulty r = s)"
| "holds txt r (Text, Search s) = txt s r"
| "holds txt r (PrepTime, Lte n) = lte (prepTime r) n"
| "holds txt r (CookTime, Lte n) = lte (cookTime r) n"
| "holds txt r (Calories, Lte n) = (case calories r of None \<Rightarrow> False | Some c \<Rightarrow> lte c n)"
| "holds txt r (IngredientsName, In xs) =
     list_ex (\<lambda>i. name i \<in> set (map trim xs)) (ingredients r)"
| "holds txt r _ = False"

definition matches :: "(string \<Rightarrow> recipe \<Rightarrow> bool) \<Rightarrow> filter_doc \<Rightarrow> recipe \<Rightarrow> bool" where
  "matches txt f r = list_all (holds txt r) f"

text \<open>
  Mongoose also casts every condition to the type of its path. The cast of \<^verbatim>\<open>NaN\<close> to
  Number fails with a CastError, and the query is rejected.
\<close>

fun castable :: "path \<times> condition \<Rightarrow> bool" where
  "castable (p, Lte NaN) = False"
| "castable _ = True"

text \<open>The documents that \<^verbatim>\<open>find(filter)\<close> selects and \<^verbatim>\<open>countDocuments(filter)\<close> counts.\<close>

definition findMatching :: "(string \<Rightarrow> recipe \<Rightarrow> bool) \<Rightarrow> filter_doc \<Rightarrow> store \<Rightarrow> recipe list" where
  "findMatching txt f st = filter (matches txt f) (recipes st)"

section \<open>Ordering\<close>

text \<open>
  A sort of the store, as a stable insertion sort: \<open>before a b\<close> says that \<open>a\<close> may stand
  in front of \<open>b\<close>. (The store promises no order among documents with equal keys; the
  model keeps them in insertion order.)
\<close>

primrec insertBy :: "('a \<Rightarrow> 'a \<Rightarrow> bool) \<Rightarrow> 'a \<Rightarrow> 'a list \<Rightarrow> 'a list" where
  "insertBy before x [] = [x]"
| "insertBy before x (y # ys) = (if before x y then x # y # ys else y # insertBy before x ys)"

definition sortBy :: "('a \<Rightarrow> 'a \<Rightarrow> bool) \<Rightarrow> 'a list \<Rightarrow> 'a list" where
  "sortBy before xs = foldr (insertBy before) xs []"

text \<open>\<^verbatim>\<open>sort({ createdAt: -1 })\<close>.\<close>

definition createdDesc :: "recipe \<Rightarrow> recipe \<Rightarrow> bool" where
  "createdDesc a b = (createdAt a \<ge> createdAt b)"

section \<open>The paginated listing\<close>

record page_info =
  currentPage :: int
  totalPages :: int
  totalRecipes :: int
  hasNext :: bool
  hasPrev :: bool

record listing =
  listed :: "recipe list"
  pagination :: page_info

text \<open>
  \<^verbatim>\<open>Math.ceil(total / limit)\<close>: the quotient is a double; \<open>limit\<close> is never 0 here.
\<close>

definition ceilDiv :: "int \<Rightarrow> int \<Rightarrow> int" where
  "ceilDiv n limit = \<lceil>nearestDouble (of_int n / of_int limit)\<rceil>"

text \<open>
  \<^verbatim>\<open>GET /\<close>. \<^verbatim>\<open>(page - 1) * limit\<close> is computed in doubles. The server refuses a
  negative \<^verbatim>\<open>skip\<close>; the driver sends the absolute value of a negative \<^verbatim>\<open>limit\<close>. Every
  failure of the query ends in the \<^verbatim>\<open>catch\<close> block (500). The populated author is left
  out of the answer. (The store is taken to accept any \<^verbatim>\<open>skip\<close> and \<^verbatim>\<open>limit\<close> that is not
  negative; the properties below are stated for numbers up to \<open>2^53\<close>.)
\<close>

definition getRecipes :: "(string \<Rightarrow> recipe \<Rightarrow> bool) \<Rightarrow> store \<Rightarrow> query \<Rightarrow> failure + listing" where
  "getRecipes txt st q =
     (let page = orDefault (parseInt (q_page q)) 1;
          limit = orDefault (parseInt (q_limit q)) 12;
          skip = toNumber (toNumber (page - 1) * limit);
          f = buildFilter q
      in if \<not> list_all castable f \<or> skip < 0 then Inl ServerError
         else
           let found = sortBy createdDesc (findMatching txt f st);
               n = int (length (findMatching txt f st))
           in Inr \<lparr>listed = take (nat \<bar>limit\<bar>) (drop (nat skip) found),
                   pagination =
                     \<lparr>currentPage = page,
                      totalPages = ceilDiv n limit,
                      totalRecipes = n,
                      hasNext = (page < ceilDiv n limit),
                      hasPrev = (page > 1)\<rparr>\<rparr>)"

section \<open>Popular recipes\<close>

text \<open>
  \<^verbatim>\<open>sort({ 'ratings.rating': -1, createdAt: -1 })\<close>. The key of a descending sort on a path
  through an array is the largest value the path reaches in the document; a document
  where it reaches none (no ratings) sorts below every number.
\<close>

primrec largestRating :: "rating_doc list \<Rightarrow> int option" where
  "largestRating [] = None"
| "largestRating (e # es) =
     Some (case largestRating es of None \<Rightarrow> rating e | Some m \<Rightarrow> max (rating e) m)"

fun keyLess :: "int option \<Rightarrow> int option \<Rightarrow> bool" where
  "keyLess None (Some y) = True"
| "keyLess (Some x) (Some y) = (x < y)"
| "keyLess _ None = False"



section \<open>Derived values\<close>








text \<open>The virtual \<^verbatim>\<open>totalTime\<close>.\<close>

definition totalTime :: "recipe \<Rightarrow> int" where
  "totalTime r = prepTime r + cookTime r"

section \<open>Reachable states\<close>


text \<open>The invariant of the data model: at most one rating entry per user on every recipe.\<close>

definition oneRatingPerUser :: "store \<Rightarrow> bool" where
  "oneRatingPerUser st = list_all (\<lambda>r. distinct (map rating_user (ratings r))) (recipes st)"

section \<open>Example data\<close>

text \<open>A recipe body that passes every validator, and the documents made from it.\<close>

definition carbonaraBody :: recipe_body where
  "carbonaraBody =
     \<lparr>b_id = None, b_title = ''Carbonara'', b_description = ''Roman pasta'',
      b_image = ''carbonara.jpg'',
      b_ingredients = [\<lparr>name = ''spaghetti'', amount = ''200g''\<rparr>,
                       \<lparr>name = ''egg'', amount = ''2''\<rparr>],
      b_instructions = [\<lparr>step = 1, step_description = ''Boil the pasta''\<rparr>],
      b_prepTime = 10, b_cookTime = 15, b_servings = 2, b_calories = Some 600,
      b_difficulty = ''Easy'', b_cuisine = ''Italian'', b_diet = ''Regular'',
      b_ratings = [], b_comments = [], b_tags = [],
      b_createdAt = None, b_updatedAt = None\<rparr>"

definition carbonara :: recipe where
  "carbonara = newRecipe 1 1000 9 carbonaraBody"

definition cook :: user where
  "cook = \<lparr>user_id = 7, username = ''cook'', avatar = [], bio = [], favoriteRecipes = [1]\<rparr>"

definition guest :: user where
  "guest = \<lparr>user_id = 8, username = ''guest'', avatar = [], bio = [], favoriteRecipes = []\<rparr>"

definition emptyStore :: store where
  "emptyStore = \<lparr>recipes = [], users = []\<rparr>"

definition kitchen :: store where
  "kitchen = \<lparr>recipes = [carbonara], users = [cook, guest]\<rparr>"

text \<open>The same body with two ratings of user 7 supplied by the client.\<close>

definition twiceRatedBody :: recipe_body where
  "twiceRatedBody =
     carbonaraBody\<lparr>b_ratings := [\<lparr>rb_user = 7, rb_rating = 5, rb_createdAt = None\<rparr>,
                                  \<lparr>rb_user = 7, rb_rating = 2, rb_createdAt = None\<rparr>]\<rparr>"

text \<open>A stand-in for the text index in examples: the search string is the title.\<close>

definition titleIs :: "string \<Rightarrow> recipe \<Rightarrow> bool" where
  "titleIs s r = (title r = s)"

definition noQuery :: query where
  "noQuery =
     \<lparr>q_page = None, q_limit = None, q_cuisine = None, q_diet = None, q_difficulty = None,
      q_search = None, q_maxPrepTime = None, q_maxCookTime = None, q_maxCalories = None,
      q_ingredients = None\<rparr>"

definition italianQuick :: query where
  "italianQuick = noQuery\<lparr>q_cuisine := Some ''Italian'', q_maxPrepTime := Some ''20''\<rparr>"

text \<open>
  Thirty recipes, created one after the other: the first twenty-five Italian, the last
  five French. The queries ask for a page of the Italian ones, twelve to the page, and
  for a page of them with the page size \<open>-5\<close>.
\<close>

definition pantry :: store where
  "pantry = \<lparr>recipes = map (\<lambda>i. carbonara\<lparr>recipe_id := i, createdAt := i,
                                              cuisine := (if i \<le> 25 then ''Italian'' else ''French'')\<rparr>)
                            [1..<31],
              users = []\<rparr>"

definition pageOf :: "string \<Rightarrow> query" where
  "pageOf p = noQuery\<lparr>q_page := Some p, q_limit := Some ''12'', q_cuisine := Some ''Italian''\<rparr>"

definition backwards :: "string \<Rightarrow> query" where
  "backwards p = noQuery\<lparr>q_page := Some p, q_limit := Some ''-5'', q_cuisine := Some ''Italian''\<rparr>"






section \<open>The average as the specification words it\<close>



section \<open>The filter as the specification words it\<close>

text \<open>
  The predicate of the specification, to compare the filter object with: a recipe must
  satisfy every supplied constraint, and an absent parameter constrains nothing. A
  parameter counts as supplied when it is present and not empty. The exact-match
  fields must equal the value (for the cuisine, white space around the value does not
  count); a numeric field must be at most the number the value denotes (and so be
  present); the ingredient names must meet the comma-separated list of names; the free
  text must match in the store's text index.
\<close>

definition supplied :: "string option \<Rightarrow> string \<Rightarrow> bool" where
  "supplied p s = (p = Some s \<and> s \<noteq> [])"

definition satisfiesAll :: "(string \<Rightarrow> recipe \<Rightarrow> bool) \<Rightarrow> query \<Rightarrow> recipe \<Rightarrow> bool" where
  "satisfiesAll txt q r =
     ((\<forall>s. supplied (q_cuisine q) s \<longrightarrow> cuisine r = trim s) \<and>
      (\<forall>s. supplied (q_diet q) s \<longrightarrow> diet r = s) \<and>
      (\<forall>s. supplied (q_difficulty q) s \<longrightarrow> difficulty r = s) \<and>
      (\<forall>s. supplied (q_search q) s \<longrightarrow> txt s r) \<and>
      (\<forall>s. supplied (q_maxPrepTime q) s \<longrightarrow>
           (\<exists>n. parseIntString s = Num n \<and> prepTime r \<le> n)) \<and>
      (\<forall>s. supplied (q_maxCookTime q) s \<longrightarrow>
           (\<exists>n. parseIntString s = Num n \<and> cookTime r \<le> n)) \<and>
      (\<forall>s. supplied (q_maxCalories q) s \<longrightarrow>
           (\<exists>n c. parseIntString s = Num n \<and> calories r = Some c \<and> c \<le> n)) \<and>
      (\<forall>s. supplied (q_ingredients q) s \<longrightarrow>
           (\<exists>i \<in> set (ingredients r). name i \<in> trim ` set (split CHR '','' s))))"

section \<open>Properties of the numbers\<close>

lemma log2floor_bounds: "1 \<le> n \<Longrightarrow> 2 ^ log2floor n \<le> n \<and> n < 2 ^ Suc (log2floor n)"
proof (induction n rule: log2floor.induct)
  case (1 n)
  show ?case
  proof (cases "n < 2")
    case True
    with "1.prems" have "n = 1" by simp
    then show ?thesis by (simp add: log2floor.simps)
  next
    case False
    then have half: "1 \<le> n div 2" by simp
    have ih: "2 ^ log2floor (n div 2) \<le> n div 2 \<and> n div 2 < 2 ^ Suc (log2floor (n div 2))"
      using "1.IH" [OF False half] .
    have unfold: "log2floor n = Suc (log2floor (n div 2))"
      using False by (subst log2floor.simps) simp
    from ih have "2 * 2 ^ log2floor (n div 2) \<le> n" by linarith
    moreover from ih have "n < 2 * 2 ^ Suc (log2floor (n div 2))" by linarith
    ultimately show ?thesis by (simp add: unfold)
  qed
qed

lemma roundHalfEven_of_int [simp]: "roundHalfEven (of_int m) = m"
  by (simp add: roundHalfEven_def)

lemma pow2_pos [simp]: "0 < pow2 k"
  by (simp add: pow2_def)

lemma pow2_add: "pow2 (a + b) = pow2 a * pow2 b"
proof -
  have "pow2 k = 2 powi k" for k
    by (simp add: pow2_def power_int_def power_inverse inverse_eq_divide power_divide)
  then show ?thesis by (simp add: power_int_add)
qed

lemma pow2_binade_le:
  assumes "0 < q" shows "pow2 (binade q) \<le> q"
proof (cases "1 \<le> q")
  case True
  then have "1 \<le> \<lfloor>q\<rfloor>" by simp
  then have "1 \<le> nat \<lfloor>q\<rfloor>" by linarith
  then have "2 ^ log2floor (nat \<lfloor>q\<rfloor>) \<le> nat \<lfloor>q\<rfloor>" using log2floor_bounds by blast
  then have "int (2 ^ log2floor (nat \<lfloor>q\<rfloor>)) \<le> int (nat \<lfloor>q\<rfloor>)"
    by (simp only: of_nat_le_iff)
  moreover have "int (nat \<lfloor>q\<rfloor>) = \<lfloor>q\<rfloor>" using \<open>1 \<le> \<lfloor>q\<rfloor>\<close> by simp
  ultimately have "int (2 ^ log2floor (nat \<lfloor>q\<rfloor>)) \<le> \<lfloor>q\<rfloor>" by simp
  then have "(of_int (int (2 ^ log2floor (nat \<lfloor>q\<rfloor>))) :: rat) \<le> q"
    by (simp only: le_floor_iff)
  then show ?thesis using True by (simp add: binade_def pow2_def)
next
  case False
  define m where "m = nat (\<lceil>1 / q\<rceil> - 1)"
  have "1 < 1 / q" using False assms by simp
  then have two: "2 \<le> \<lceil>1 / q\<rceil>" by linarith
  then have m1: "1 \<le> m" unfolding m_def by linarith
  have m: "int m = \<lceil>1 / q\<rceil> - 1" unfolding m_def using two by linarith
  have "m < 2 ^ Suc (log2floor m)" using log2floor_bounds [OF m1] by blast
  then have "int m < 2 ^ Suc (log2floor m)" by (metis of_nat_less_iff of_nat_numeral of_nat_power)
  then have "\<lceil>1 / q\<rceil> \<le> 2 ^ Suc (log2floor m)" using m by linarith
  then have "1 / q \<le> of_int (2 ^ Suc (log2floor m))" by (simp only: ceiling_le_iff)
  then have "1 / q \<le> 2 ^ Suc (log2floor m)" by simp
  then have "1 / 2 ^ Suc (log2floor m) \<le> q"
    using assms by (simp add: field_simps)
  moreover have "nat (int (log2floor m) + 1) = Suc (log2floor m)" by linarith
  ultimately show ?thesis using False by (simp add: binade_def pow2_def flip: m_def)
qed


lemma roundHalfEven_near: "\<bar>of_int (roundHalfEven x) - x\<bar> \<le> 1 / 2"
proof -
  have "of_int \<lfloor>x\<rfloor> \<le> x" and "x < of_int \<lfloor>x\<rfloor> + 1" by linarith+
  then show ?thesis by (auto simp: roundHalfEven_def Let_def)
qed

lemma nearestDouble_pos:
  "0 < q \<Longrightarrow> nearestDouble q
     = of_int (roundHalfEven (q / pow2 (binade q - 52))) * pow2 (binade q - 52)"
  by (simp add: nearestDouble_def Let_def)

lemma nearestDouble_neg: "q < 0 \<Longrightarrow> nearestDouble q = - nearestDouble (- q)"
  by (simp add: nearestDouble_def Let_def)

lemma nearestDouble_relative:
  assumes "0 < q"
  shows "\<bar>nearestDouble q - q\<bar> \<le> q / 2 ^ 53"
proof -
  define ulp where "ulp = pow2 (binade q - 52)"
  have ulp0: "0 < ulp" by (simp add: ulp_def)
  have "ulp = pow2 (binade q) * pow2 (- 52)"
    unfolding ulp_def using pow2_add [of "binade q" "- 52"] by simp
  also have "pow2 (- 52) = 1 / 2 ^ 52" by (simp add: pow2_def)
  finally have "ulp = pow2 (binade q) / 2 ^ 52" by simp
  moreover have "pow2 (binade q) / 2 ^ 52 \<le> q / 2 ^ 52"
    using pow2_binade_le [OF assms] by (intro divide_right_mono) simp_all
  ultimately have ulp: "ulp \<le> q / 2 ^ 52" by simp
  have "nearestDouble q = of_int (roundHalfEven (q / ulp)) * ulp"
    by (simp add: nearestDouble_pos [OF assms] ulp_def)
  then have "nearestDouble q - q = (of_int (roundHalfEven (q / ulp)) - q / ulp) * ulp"
    using ulp0 by (simp add: field_simps)
  then have "\<bar>nearestDouble q - q\<bar> = \<bar>of_int (roundHalfEven (q / ulp)) - q / ulp\<bar> * ulp"
    using ulp0 by (simp add: abs_mult)
  also have "\<dots> \<le> (1 / 2) * ulp"
    using roundHalfEven_near [of "q / ulp"] ulp0 by (intro mult_right_mono) simp_all
  also have "\<dots> \<le> (1 / 2) * (q / 2 ^ 52)" using ulp by simp
  also have "\<dots> = q / 2 ^ 53" by simp
  finally show ?thesis .
qed

lemma nearestDouble_of_nat:
  assumes "k \<le> 2 ^ 53"
  shows "nearestDouble (of_nat k) = of_nat k"
proof (cases "k = 0")
  case True
  then show ?thesis by (simp add: nearestDouble_def)
next
  case False
  then have k1: "1 \<le> k" by simp
  define e where "e = log2floor k"
  have pos: "0 < (of_nat k :: rat)" using k1 by simp
  have "(1::rat) \<le> of_nat k" using k1 by simp
  then have bin: "binade (of_nat k) = int e" by (simp add: binade_def e_def)
  have low: "2 ^ e \<le> k" using log2floor_bounds [OF k1] by (simp add: e_def)
  then have "(2::nat) ^ e \<le> 2 ^ 53" using assms by linarith
  then have e53: "e \<le> 53" by (rule power_le_imp_le_exp [rotated]) simp
  show ?thesis
  proof (cases "e \<le> 52")
    case True
    then have ulp: "pow2 (int e - 52) = 1 / 2 ^ (52 - e)"
    proof (cases "e = 52")
      case True
      then show ?thesis by (simp add: pow2_def)
    next
      case False
      with True have "e < 52" by simp
      moreover from this have "nat (52 - int e) = 52 - e" by linarith
      ultimately show ?thesis by (simp add: pow2_def)
    qed
    have "(of_nat k :: rat) / (1 / 2 ^ (52 - e)) = of_int (int (k * 2 ^ (52 - e)))" by simp
    then have "roundHalfEven (of_nat k / (1 / 2 ^ (52 - e))) = int (k * 2 ^ (52 - e))"
      by (simp only: roundHalfEven_of_int)
    then show ?thesis by (simp add: nearestDouble_pos [OF pos] bin ulp)
  next
    case False
    with e53 have e: "e = 53" by simp
    with low assms have k: "k = 2 ^ 53" by simp
    have ulp: "pow2 (int e - 52) = 2" by (simp add: e pow2_def)
    have "(of_nat k :: rat) / 2 = of_int (2 ^ 52)" by (simp add: k)
    then have "roundHalfEven (of_nat k / 2) = 2 ^ 52" by (simp only: roundHalfEven_of_int)
    then show ?thesis by (simp add: nearestDouble_pos [OF pos] bin ulp) (simp add: k)
  qed
qed

lemma nearestDouble_of_int:
  assumes "\<bar>n\<bar> \<le> 2 ^ 53"
  shows "nearestDouble (of_int n) = of_int n"
proof (cases "0 \<le> n")
  case True
  then have "nat n \<le> nat (2 ^ 53)" using assms by (intro nat_mono) simp
  then have "nat n \<le> 2 ^ 53" by simp
  then have "nearestDouble (of_nat (nat n)) = of_nat (nat n)" by (rule nearestDouble_of_nat)
  moreover have "(of_nat (nat n) :: rat) = of_int n" using True by (metis of_int_of_nat_eq int_nat_eq)
  ultimately show ?thesis by simp
next
  case False
  then have "nat (- n) \<le> nat (2 ^ 53)" using assms by (intro nat_mono) simp
  then have "nat (- n) \<le> 2 ^ 53" by simp
  then have "nearestDouble (of_nat (nat (- n))) = of_nat (nat (- n))" by (rule nearestDouble_of_nat)
  moreover have "(of_nat (nat (- n)) :: rat) = - of_int n"
    using False by (metis of_int_of_nat_eq int_nat_eq of_int_minus linorder_not_le neg_0_le_iff_le order_less_imp_le)
  moreover have "nearestDouble (of_int n) = - nearestDouble (- of_int n)"
    using False by (intro nearestDouble_neg) simp
  ultimately show ?thesis by simp
qed

lemma toNumber_exact: "\<bar>n\<bar> \<le> 2 ^ 53 \<Longrightarrow> toNumber n = n"
  by (simp add: toNumber_def nearestDouble_of_int)


lemma ceilDiv_exact:
  assumes n: "0 \<le> n" "n < 2 ^ 53" and s: "1 \<le> s"
  shows "ceilDiv n s = \<lceil>(of_int n :: rat) / of_int s\<rceil>"
proof (cases "n = 0")
  case True
  then show ?thesis by (simp add: ceilDiv_def nearestDouble_def)
next
  case False
  define x :: rat where "x = of_int s"
  define q :: rat where "q = of_int n / x"
  define k where "k = \<lceil>q\<rceil>"
  define d where "d = nearestDouble q"
  have x: "1 \<le> x" using s by (simp add: x_def)
  then have x0: "0 < x" by linarith
  have n0: "0 < n" using False n(1) by simp
  then have q0: "0 < q" using x0 by (simp add: q_def)
  have qx: "q * x = of_int n" using x0 by (simp add: q_def)
  have k: "of_int k - 1 < q" "q \<le> of_int k" unfolding k_def by linarith+
  show ?thesis
  proof (cases "q = of_int k")
    case True
    have "0 < k" using q0 k(2) by (simp add: True)
    moreover have "q \<le> of_int n"
    proof -
      have "q * 1 \<le> q * x" using x q0 by (intro mult_left_mono) simp_all
      then show ?thesis by (simp add: qx)
    qed
    then have "k \<le> n" by (simp add: True)
    ultimately have "\<bar>k\<bar> \<le> 2 ^ 53" using n(2) by simp
    then have "nearestDouble (of_int k) = of_int k" by (rule nearestDouble_of_int)
    then have "\<lceil>nearestDouble q\<rceil> = k" by (simp add: True)
    then show ?thesis by (simp add: ceilDiv_def q_def x_def k_def)
  next
    case False
    with k(2) have lt: "q < of_int k" by simp
    have "(of_int n :: rat) < of_int (2 ^ 53)" using n(2) by (simp only: of_int_less_iff)
    then have "q * x < 2 ^ 53" by (simp add: qx)
    then have err: "q / 2 ^ 53 < 1 / x" using x0 by (simp add: field_simps)
    have close: "\<bar>d - q\<bar> \<le> q / 2 ^ 53" unfolding d_def using q0 by (rule nearestDouble_relative)
    have up: "q + 1 / x \<le> of_int k"
    proof -
      have "of_int n < of_int k * x" using lt x0 by (simp add: pos_divide_less_eq q_def)
      then have "(of_int n :: rat) < of_int (k * s)" by (simp add: x_def)
      then have "n < k * s" by (simp only: of_int_less_iff)
      then have "n + 1 \<le> k * s" by simp
      then have "(of_int (n + 1) :: rat) \<le> of_int (k * s)" by (simp only: of_int_le_iff)
      then have "of_int n + 1 \<le> of_int k * x" by (simp add: x_def)
      then have "(of_int n + 1) / x \<le> of_int k" using x0 by (simp add: pos_divide_le_eq)
      then show ?thesis by (simp add: q_def add_divide_distrib)
    qed
    have down: "of_int k - 1 \<le> q - 1 / x"
    proof -
      have "(of_int k - 1) * x < of_int n" using k(1) x0 by (simp add: pos_less_divide_eq q_def)
      then have "(of_int ((k - 1) * s) :: rat) < of_int n" by (simp add: x_def)
      then have "(k - 1) * s < n" by (simp only: of_int_less_iff)
      then have "(k - 1) * s \<le> n - 1" by simp
      then have "(of_int ((k - 1) * s) :: rat) \<le> of_int (n - 1)" by (simp only: of_int_le_iff)
      then have "(of_int k - 1) * x \<le> of_int n - 1" by (simp add: x_def)
      then have "of_int k - 1 \<le> (of_int n - 1) / x" using x0 by (simp add: pos_le_divide_eq)
      then show ?thesis by (simp add: q_def diff_divide_distrib)
    qed
    from close err have "q - 1 / x < d" "d < q + 1 / x" by linarith+
    with up down have "of_int k - 1 < d" "d \<le> of_int k" by linarith+
    then have "\<lceil>d\<rceil> = k" by (intro ceiling_unique)
    then show ?thesis by (simp add: ceilDiv_def d_def q_def x_def k_def)
  qed
qed

lemma ceilDiv_eq:
  assumes "0 \<le> n" "n < 2 ^ 53" "1 \<le> s"
  shows "ceilDiv n s = - (- n div s)"
proof -
  have "\<lfloor>(of_int (- n) :: rat) / of_int s\<rfloor> = - n div s"
    by (rule floor_divide_of_int_eq)
  then show ?thesis by (simp add: ceilDiv_exact [OF assms] ceiling_def)
qed

section \<open>Properties of rating\<close>

lemma find_recipe_id:
  "find (\<lambda>r. recipe_id r = i) xs = Some r \<Longrightarrow> recipe_id r = i"
  by (induction xs) (auto split: if_splits)

lemma find_after_save:
  "find (\<lambda>r. recipe_id r = i) xs = Some r \<Longrightarrow> recipe_id r' = i \<Longrightarrow>
   find (\<lambda>r. recipe_id r = i) (map (\<lambda>x. if recipe_id x = i then r' else x) xs) = Some r'"
  by (induction xs) (auto split: if_splits)

lemma findRecipeById_saveRecipe:
  assumes "findRecipeById st i = Some r" and "recipe_id r' = i"
  shows "findRecipeById (saveRecipe st r') i = Some r'"
  using assms find_after_save [of i "recipes st" r r']
  by (simp add: findRecipeById_def saveRecipe_def)

lemma ratingsOf_updateFirst_single:
  "ratingsOf uid rs = [e] \<Longrightarrow>
   ratingsOf uid (updateFirst (\<lambda>e. rating_user e = uid) (\<lambda>e. e\<lparr>rating := v\<rparr>) rs)
     = [e\<lparr>rating := v\<rparr>]"
proof (induction rs)
  case Nil
  then show ?case by (simp add: ratingsOf_def)
next
  case (Cons x xs)
  show ?case
  proof (cases "rating_user x = uid")
    case True
    with Cons.prems show ?thesis by (simp add: ratingsOf_def)
  next
    case False
    with Cons show ?thesis by (simp add: ratingsOf_def)
  qed
qed

lemma find_None_ratingsOf: "find (\<lambda>e. rating_user e = uid) rs = None \<longleftrightarrow> ratingsOf uid rs = []"
  by (induction rs) (auto simp: ratingsOf_def)

lemma length_updateFirst: "length (updateFirst P f xs) = length xs"
  by (induction xs) auto

lemma ratingsOf_rateRatings_absent:
  assumes "ratingsOf uid rs = []"
  shows "ratingsOf uid (rateRatings uid v now rs)
           = [\<lparr>rating_user = uid, rating = v, rating_createdAt = now\<rparr>]"
  using assms find_None_ratingsOf [of uid rs]
  by (simp add: rateRatings_def) (simp add: ratingsOf_def)

lemma ratingsOf_rateRatings_single:
  assumes "ratingsOf uid rs = [e]"
  shows "ratingsOf uid (rateRatings uid v now rs) = [e\<lparr>rating := v\<rparr>]"
proof -
  from assms have "find (\<lambda>e. rating_user e = uid) rs \<noteq> None"
    by (simp add: find_None_ratingsOf)
  then obtain x where "find (\<lambda>e. rating_user e = uid) rs = Some x" by blast
  then show ?thesis
    using ratingsOf_updateFirst_single [OF assms] by (simp add: rateRatings_def)
qed

lemma length_rateRatings_present:
  assumes "ratingsOf uid rs \<noteq> []"
  shows "length (rateRatings uid v now rs) = length rs"
proof -
  from assms obtain x where "find (\<lambda>e. rating_user e = uid) rs = Some x"
    using find_None_ratingsOf [of uid rs] by blast
  then show ?thesis by (simp add: rateRatings_def length_updateFirst)
qed

lemma findRecipeById_id: "findRecipeById st i = Some r \<Longrightarrow> recipe_id r = i"
  unfolding findRecipeById_def by (rule find_recipe_id)

lemma ratingsOf_rateRatings_at_most_one:
  assumes "length (ratingsOf uid rs) \<le> 1"
  shows "\<exists>e. ratingsOf uid (rateRatings uid v now rs) = [e] \<and> rating e = v"
proof (cases "ratingsOf uid rs")
  case Nil
  then show ?thesis by (simp add: ratingsOf_rateRatings_absent)
next
  case (Cons e es)
  with assms have "ratingsOf uid rs = [e]" by simp
  then show ?thesis by (simp add: ratingsOf_rateRatings_single)
qed

lemma rateWith_declared:
  assumes "findRecipeById st rid = Some r" and "validRating v"
  shows "rateWith UnnamedCopy st now rid uid v =
           (Inr ''Recipe rated successfully'',
            saveRecipe st (r\<lparr>ratings := rateRatings uid v now (ratings r)\<rparr>))"
  using assms by (simp add: rateWith_def ratingsProperty_def)

text \<open>
  What the lines of the handler after the lookup do where the schema declares the
  ratings path: for a recipe whose ratings list holds at most one entry of the user, two
  calls leave exactly one entry of the user, with the second value, and the second call
  does not make the list longer.
\<close>

lemma upsert_where_ratings_declared:
  assumes found: "findRecipeById st rid = Some R"
    and v1: "validRating v1" and v2: "validRating v2"
    and one: "length (ratingsOf U (ratings R)) \<le> 1"
  shows "\<exists>st1 st2 R1 R2 e.
           rateWith UnnamedCopy st t1 rid U v1 = (Inr ''Recipe rated successfully'', st1) \<and>
           findRecipeById st1 rid = Some R1 \<and>
           rateWith UnnamedCopy st1 t2 rid U v2 = (Inr ''Recipe rated successfully'', st2) \<and>
           findRecipeById st2 rid = Some R2 \<and>
           ratingsOf U (ratings R2) = [e] \<and> rating e = v2 \<and>
           length (ratings R2) = length (ratings R1)"
proof -
  define R1 where "R1 = R\<lparr>ratings := rateRatings U v1 t1 (ratings R)\<rparr>"
  define st1 where "st1 = saveRecipe st R1"
  define R2 where "R2 = R1\<lparr>ratings := rateRatings U v2 t2 (ratings R1)\<rparr>"
  define st2 where "st2 = saveRecipe st1 R2"
  have id: "recipe_id R = rid" using found by (rule findRecipeById_id)
  have first: "rateWith UnnamedCopy st t1 rid U v1 = (Inr ''Recipe rated successfully'', st1)"
    using rateWith_declared [OF found v1] by (simp add: st1_def R1_def)
  have found1: "findRecipeById st1 rid = Some R1"
    unfolding st1_def by (rule findRecipeById_saveRecipe [OF found]) (simp add: R1_def id)
  have second: "rateWith UnnamedCopy st1 t2 rid U v2 = (Inr ''Recipe rated successfully'', st2)"
    using rateWith_declared [OF found1 v2] by (simp add: st2_def R2_def)
  have found2: "findRecipeById st2 rid = Some R2"
    unfolding st2_def by (rule findRecipeById_saveRecipe [OF found1]) (simp add: R2_def R1_def id)
  obtain e1 where e1: "ratingsOf U (ratings R1) = [e1]"
    using ratingsOf_rateRatings_at_most_one [OF one, of v1 t1] by (auto simp: R1_def)
  then have "ratingsOf U (ratings R2) = [e1\<lparr>rating := v2\<rparr>]"
    by (simp add: R2_def ratingsOf_rateRatings_single)
  moreover have "length (ratings R2) = length (ratings R1)"
    using e1 by (simp add: R2_def length_rateRatings_present)
  ultimately show ?thesis
    using first second found1 found2 by simp
qed

text \<open>
  C1 does not hold of the code. The claim says that two calls of rate by one user leave
  exactly one rating entry of that user, with the second value. The schema that the
  routes require declares no ratings path, so for a recipe that exists the handler finds
  \<^verbatim>\<open>recipe.ratings\<close> undefined and answers 500: both calls fail, the store is the one they
  were given, and the recipe is as it was, without an entry that holds the value.
\<close>

theorem rate_found_answers_500:
  assumes found: "findRecipeById st rid = Some R"
    and v1: "validRating v1" and v2: "validRating v2"
  shows "rate st t1 rid U v1 = (Inl ServerError, st) \<and>
         rate (snd (rate st t1 rid U v1)) t2 rid U v2 = (Inl ServerError, st) \<and>
         findRecipeById (snd (rate (snd (rate st t1 rid U v1)) t2 rid U v2)) rid = Some R"
proof -
  have fails: "rate st t rid U v = (Inl ServerError, st)" if "validRating v" for t v
    using that found by (simp add: rate_def rateWith_def ratingsProperty_def)
  show ?thesis using fails [OF v1] fails [OF v2] found by simp
qed

theorem rate_found_answers_500_witness:
  "rate kitchen 2000 1 7 3 = (Inl ServerError, kitchen) \<and>
   rate (snd (rate kitchen 2000 1 7 3)) 3000 1 7 5 = (Inl ServerError, kitchen) \<and>
   findRecipeById (snd (rate (snd (rate kitchen 2000 1 7 3)) 3000 1 7 5)) 1 = Some carbonara \<and>
   ratingsOf 7 (ratings carbonara) = []"
proof -
  have found: "findRecipeById kitchen 1 = Some carbonara"
    by (simp add: findRecipeById_def kitchen_def carbonara_def newRecipe_def newRecipeWith_def
        carbonaraBody_def)
  have none: "ratingsOf 7 (ratings carbonara) = []"
    by (simp add: ratingsOf_def carbonara_def newRecipe_def newRecipeWith_def carbonaraBody_def)
  have "validRating 3" and "validRating 5" by (simp_all add: validRating_def)
  then show ?thesis using rate_found_answers_500 [OF found, of 3 5 2000 7 3000] none by blast
qed

text \<open>
  C6. For a valid rating value and an id that resolves to no recipe, rate answers
  RecipeNotFound and the store it leaves is the store it was given: no recipe, no user
  and nothing else has changed.
\<close>

theorem rate_missing_recipe:
  assumes "validRating v" and "findRecipeById st rid = None"
  shows "rate st now rid U v = (Inl RecipeNotFound, st)"
  using assms by (simp add: rate_def rateWith_def)

theorem rate_missing_recipe_witness:
  "validRating 3 \<and> findRecipeById kitchen 2 = None \<and>
   rate kitchen 2000 2 7 3 = (Inl RecipeNotFound, kitchen)"
proof -
  have v: "validRating 3" by (simp add: validRating_def)
  have n: "findRecipeById kitchen 2 = None"
    by (simp add: findRecipeById_def kitchen_def carbonara_def newRecipe_def newRecipeWith_def carbonaraBody_def)
  show ?thesis using v n rate_missing_recipe [OF v n, of 2000 7] by simp
qed

section \<open>Properties of the favorites\<close>

lemma find_Some_user:
  "find (\<lambda>x. user_id x = i) xs = Some u \<Longrightarrow> u \<in> set xs \<and> user_id u = i"
  by (induction xs) (auto split: if_splits)

lemma saveUser_same:
  assumes "findUserById st i = Some u" and "distinct (map user_id (users st))"
  shows "saveUser st u = st"
proof -
  from assms(1) have u: "u \<in> set (users st)" "user_id u = i"
    using find_Some_user [of i "users st" u] by (simp_all add: findUserById_def)
  have "inj_on user_id (set (users st))"
    using assms(2) by (simp add: distinct_map)
  then have "\<And>x. x \<in> set (users st) \<Longrightarrow> user_id x = user_id u \<Longrightarrow> x = u"
    using u(1) by (auto dest: inj_onD)
  then have "map (\<lambda>x. if user_id x = user_id u then u else x) (users st) = users st"
    by (intro map_idI) auto
  then show ?thesis by (simp add: saveUser_def)
qed

lemma find_user_after_save:
  "find (\<lambda>x. user_id x = i) xs = Some u \<Longrightarrow> user_id u' = i \<Longrightarrow>
   find (\<lambda>x. user_id x = i) (map (\<lambda>x. if user_id x = i then u' else x) xs) = Some u'"
  by (induction xs) (auto split: if_splits)

lemma findUserById_saveUser:
  assumes "findUserById st i = Some u" and "user_id u' = i"
  shows "findUserById (saveUser st u') i = Some u'"
  using assms find_user_after_save [of i "users st" u u']
  by (simp add: findUserById_def saveUser_def)

lemma findRecipeById_saveUser [simp]: "findRecipeById (saveUser st u) i = findRecipeById st i"
  by (simp add: findRecipeById_def saveUser_def)

text \<open>
  C5. For a user \<open>U\<close> (the authenticated one, whose document exists; user ids are unique)
  and a recipe id \<open>R\<close>: adding a recipe that exists and is already among the favorites
  is refused with AlreadyFavorited and the store is unchanged; removing a recipe that is
  not among the favorites succeeds and leaves the store as it was; adding fails with
  RecipeNotFound when \<open>R\<close> does not exist, while removing succeeds there too and leaves
  the favorites without \<open>R\<close>; and after a successful add, a second add is refused.
\<close>

theorem favorite_asymmetry:
  assumes user: "findUserById st U = Some u"
    and ids: "distinct (map user_id (users st))"
  shows "(findRecipeById st R \<noteq> None \<and> R \<in> set (favoriteRecipes u) \<longrightarrow>
            addFavorite st R U = (Inl AlreadyFavorited, st)) \<and>
         (R \<notin> set (favoriteRecipes u) \<longrightarrow>
            removeFavorite st R U = (Inr ''Recipe removed from favorites'', st)) \<and>
         (findRecipeById st R = None \<longrightarrow>
            addFavorite st R U = (Inl RecipeNotFound, st) \<and>
            (\<exists>st' u'. removeFavorite st R U = (Inr ''Recipe removed from favorites'', st') \<and>
                   findUserById st' U = Some u' \<and>
                   favoriteRecipes u' = filter (\<lambda>i. i \<noteq> R) (favoriteRecipes u))) \<and>
         (findRecipeById st R \<noteq> None \<and> R \<notin> set (favoriteRecipes u) \<longrightarrow>
            (\<exists>st1. addFavorite st R U = (Inr ''Recipe added to favorites'', st1) \<and>
                   addFavorite st1 R U = (Inl AlreadyFavorited, st1)))"
proof (intro conjI impI)
  assume "findRecipeById st R \<noteq> None \<and> R \<in> set (favoriteRecipes u)"
  then obtain r where r: "findRecipeById st R = Some r" and "R \<in> set (favoriteRecipes u)"
    by blast
  moreover have "recipe_id r = R" using r by (rule findRecipeById_id)
  ultimately show "addFavorite st R U = (Inl AlreadyFavorited, st)"
    using user by (simp add: addFavorite_def)
next
  assume "R \<notin> set (favoriteRecipes u)"
  then have "filter (\<lambda>i. i \<noteq> R) (favoriteRecipes u) = favoriteRecipes u"
    by (auto intro: filter_True)
  then show "removeFavorite st R U = (Inr ''Recipe removed from favorites'', st)"
    using user saveUser_same [OF user ids] by (simp add: removeFavorite_def)
next
  assume "findRecipeById st R = None"
  then show "addFavorite st R U = (Inl RecipeNotFound, st)"
    by (simp add: addFavorite_def)
next
  assume "findRecipeById st R = None"
  have uid: "user_id u = U" using user find_Some_user [of U "users st" u]
    by (simp add: findUserById_def)
  define u' where "u' = u\<lparr>favoriteRecipes := filter (\<lambda>i. i \<noteq> R) (favoriteRecipes u)\<rparr>"
  have "removeFavorite st R U = (Inr ''Recipe removed from favorites'', saveUser st u')"
    using user by (simp add: removeFavorite_def u'_def)
  moreover have "findUserById (saveUser st u') U = Some u'"
    by (rule findUserById_saveUser [OF user]) (simp add: u'_def uid)
  moreover have "favoriteRecipes u' = filter (\<lambda>i. i \<noteq> R) (favoriteRecipes u)"
    by (simp add: u'_def)
  ultimately show "\<exists>st' u'. removeFavorite st R U = (Inr ''Recipe removed from favorites'', st') \<and>
                   findUserById st' U = Some u' \<and>
                   favoriteRecipes u' = filter (\<lambda>i. i \<noteq> R) (favoriteRecipes u)"
    by blast
next
  assume "findRecipeById st R \<noteq> None \<and> R \<notin> set (favoriteRecipes u)"
  then obtain r where r: "findRecipeById st R = Some r" and notin: "R \<notin> set (favoriteRecipes u)"
    by blast
  have rid: "recipe_id r = R" using r by (rule findRecipeById_id)
  have uid: "user_id u = U" using user find_Some_user [of U "users st" u]
    by (simp add: findUserById_def)
  define u1 where "u1 = u\<lparr>favoriteRecipes := favoriteRecipes u @ [R]\<rparr>"
  have first: "addFavorite st R U = (Inr ''Recipe added to favorites'', saveUser st u1)"
    using user r rid notin by (simp add: addFavorite_def u1_def)
  have "findUserById (saveUser st u1) U = Some u1"
    by (rule findUserById_saveUser [OF user]) (simp add: u1_def uid)
  then have "addFavorite (saveUser st u1) R U = (Inl AlreadyFavorited, saveUser st u1)"
    using r rid by (simp add: addFavorite_def u1_def)
  with first show "\<exists>st1. addFavorite st R U = (Inr ''Recipe added to favorites'', st1) \<and>
                   addFavorite st1 R U = (Inl AlreadyFavorited, st1)"
    by blast
qed

theorem favorite_asymmetry_witness:
  "addFavorite kitchen 1 7 = (Inl AlreadyFavorited, kitchen) \<and>
   removeFavorite kitchen 2 7 = (Inr ''Recipe removed from favorites'', kitchen) \<and>
   addFavorite kitchen 2 7 = (Inl RecipeNotFound, kitchen) \<and>
   (\<exists>st1. addFavorite kitchen 1 8 = (Inr ''Recipe added to favorites'', st1) \<and>
          addFavorite st1 1 8 = (Inl AlreadyFavorited, st1))"
proof -
  have ids: "distinct (map user_id (users kitchen))"
    by (simp add: kitchen_def cook_def guest_def)
  have u7: "findUserById kitchen 7 = Some cook"
    by (simp add: findUserById_def kitchen_def cook_def guest_def)
  have u8: "findUserById kitchen 8 = Some guest"
    by (simp add: findUserById_def kitchen_def cook_def guest_def)
  have r1: "findRecipeById kitchen 1 \<noteq> None"
    by (simp add: findRecipeById_def kitchen_def carbonara_def newRecipe_def newRecipeWith_def carbonaraBody_def)
  have r2: "findRecipeById kitchen 2 = None"
    by (simp add: findRecipeById_def kitchen_def carbonara_def newRecipe_def newRecipeWith_def carbonaraBody_def)
  have f7: "1 \<in> set (favoriteRecipes cook)" "2 \<notin> set (favoriteRecipes cook)"
    by (simp_all add: cook_def)
  have f8: "1 \<notin> set (favoriteRecipes guest)" by (simp add: guest_def)
  show ?thesis
    using favorite_asymmetry [OF u7 ids, of 1] favorite_asymmetry [OF u7 ids, of 2]
      favorite_asymmetry [OF u8 ids, of 1] r1 r2 f7 f8
    by blast
qed

section \<open>Properties of the filter\<close>

lemma whenTruthy_None [simp]: "whenTruthy None f = []"
  by (simp add: whenTruthy_def)

lemma whenTruthy_empty [simp]: "whenTruthy (Some []) f = []"
  by (simp add: whenTruthy_def)

lemma whenTruthy_Some: "s \<noteq> [] \<Longrightarrow> whenTruthy (Some s) f = f s"
  by (simp add: whenTruthy_def)

lemma matches_append [simp]: "matches txt (f @ g) r \<longleftrightarrow> matches txt f r \<and> matches txt g r"
  by (simp add: matches_def)

lemma matches_whenTruthy:
  "matches txt (whenTruthy p (\<lambda>s. [c s])) r \<longleftrightarrow> (\<forall>s. supplied p s \<longrightarrow> holds txt r (c s))"
  by (cases p) (auto simp: whenTruthy_def matches_def supplied_def)

lemma lte_iff: "lte x n \<longleftrightarrow> (\<exists>k. n = Num k \<and> x \<le> k)"
  by (cases n) auto

lemma holds_calories:
  "holds txt r (Calories, Lte n) \<longleftrightarrow> (\<exists>k c. n = Num k \<and> calories r = Some c \<and> c \<le> k)"
  by (cases n; cases "calories r") auto

lemma holds_ingredients:
  "holds txt r (IngredientsName, In xs) \<longleftrightarrow> (\<exists>i \<in> set (ingredients r). name i \<in> trim ` set xs)"
  by (simp add: list_ex_iff)

lemma matches_satisfiesAll: "matches txt (buildFilter q) r \<longleftrightarrow> satisfiesAll txt q r"
  unfolding buildFilter_def satisfiesAll_def matches_append matches_whenTruthy
    holds_calories holds_ingredients
  by (simp add: lte_iff)

text \<open>
  C7. The filter object the builder makes is the conjunction of the supplied constraints:
  a recipe matches it if and only if it satisfies every one of them, and a parameter
  that is absent constrains nothing. With cuisine \<open>Italian\<close> and maxPrepTime \<open>20\<close> the
  recipes that match are those whose cuisine is exactly \<open>Italian\<close> and whose prepTime is
  at most 20; a recipe with cuisine \<open>Italian\<close> and prepTime 25 does not match.
\<close>

theorem filter_is_conjunction:
  "(matches txt (buildFilter q) r \<longleftrightarrow> satisfiesAll txt q r) \<and>
   (matches txt (buildFilter italianQuick) r \<longleftrightarrow> cuisine r = ''Italian'' \<and> prepTime r \<le> 20) \<and>
   \<not> matches txt (buildFilter italianQuick) (r\<lparr>cuisine := ''Italian'', prepTime := 25\<rparr>)"
proof -
  have general: "matches txt (buildFilter q) r \<longleftrightarrow> satisfiesAll txt q r" for q r
    by (rule matches_satisfiesAll)
  have twenty: "parseIntString ''20'' = Num 20"
    by (simp add: parseIntString_def isWhiteSpace_def digitValue_def toNumber_exact)
  have example: "matches txt (buildFilter italianQuick) r
                   \<longleftrightarrow> cuisine r = ''Italian'' \<and> prepTime r \<le> 20" for r
    by (simp add: buildFilter_def italianQuick_def noQuery_def whenTruthy_Some twenty matches_def
        trim_def isWhiteSpace_def)
  show ?thesis using general example by simp
qed


lemma carbonara_eq:
  "carbonara =
     \<lparr>recipe_id = 1, title = ''Carbonara'', description = ''Roman pasta'',
      image = ''carbonara.jpg'',
      ingredients = [\<lparr>name = ''spaghetti'', amount = ''200g''\<rparr>,
                     \<lparr>name = ''egg'', amount = ''2''\<rparr>],
      instructions = [\<lparr>step = 1, step_description = ''Boil the pasta''\<rparr>],
      prepTime = 10, cookTime = 15, servings = 2, calories = Some 600,
      difficulty = ''Easy'', cuisine = ''Italian'', diet = ''Regular'', author = 9,
      ratings = [], comments = [], tags = [], createdAt = 1000, updatedAt = 1000\<rparr>"
  by (simp add: carbonara_def newRecipe_def newRecipeWith_def carbonaraBody_def trim_def
      isWhiteSpace_def dateOr_def)

theorem filter_is_conjunction_witness:
  "matches titleIs (buildFilter italianQuick) carbonara \<and>
   satisfiesAll titleIs italianQuick carbonara \<and>
   \<not> matches titleIs (buildFilter italianQuick) (carbonara\<lparr>cuisine := ''Italian'', prepTime := 25\<rparr>)"
proof -
  note inst = filter_is_conjunction [of titleIs italianQuick carbonara]
  have fields: "cuisine carbonara = ''Italian'' \<and> prepTime carbonara \<le> 20"
    by (simp add: carbonara_eq)
  from inst fields have m: "matches titleIs (buildFilter italianQuick) carbonara" by blast
  with inst have s: "satisfiesAll titleIs italianQuick carbonara" by blast
  from inst m s show ?thesis by blast
qed

text \<open>
  C10. For each of the eight filter parameters, the empty string builds the same filter
  object as the absent parameter, and the listing answers the same.
\<close>

theorem empty_string_is_absent:
  "buildFilter (q\<lparr>q_cuisine := Some []\<rparr>) = buildFilter (q\<lparr>q_cuisine := None\<rparr>) \<and>
   buildFilter (q\<lparr>q_diet := Some []\<rparr>) = buildFilter (q\<lparr>q_diet := None\<rparr>) \<and>
   buildFilter (q\<lparr>q_difficulty := Some []\<rparr>) = buildFilter (q\<lparr>q_difficulty := None\<rparr>) \<and>
   buildFilter (q\<lparr>q_search := Some []\<rparr>) = buildFilter (q\<lparr>q_search := None\<rparr>) \<and>
   buildFilter (q\<lparr>q_maxPrepTime := Some []\<rparr>) = buildFilter (q\<lparr>q_maxPrepTime := None\<rparr>) \<and>
   buildFilter (q\<lparr>q_maxCookTime := Some []\<rparr>) = buildFilter (q\<lparr>q_maxCookTime := None\<rparr>) \<and>
   buildFilter (q\<lparr>q_maxCalories := Some []\<rparr>) = buildFilter (q\<lparr>q_maxCalories := None\<rparr>) \<and>
   buildFilter (q\<lparr>q_ingredients := Some []\<rparr>) = buildFilter (q\<lparr>q_ingredients := None\<rparr>) \<and>
   getRecipes txt st (q\<lparr>q_cuisine := Some []\<rparr>) = getRecipes txt st (q\<lparr>q_cuisine := None\<rparr>) \<and>
   getRecipes txt st (q\<lparr>q_diet := Some []\<rparr>) = getRecipes txt st (q\<lparr>q_diet := None\<rparr>) \<and>
   getRecipes txt st (q\<lparr>q_difficulty := Some []\<rparr>) = getRecipes txt st (q\<lparr>q_difficulty := None\<rparr>) \<and>
   getRecipes txt st (q\<lparr>q_search := Some []\<rparr>) = getRecipes txt st (q\<lparr>q_search := None\<rparr>) \<and>
   getRecipes txt st (q\<lparr>q_maxPrepTime := Some []\<rparr>) = getRecipes txt st (q\<lparr>q_maxPrepTime := None\<rparr>) \<and>
   getRecipes txt st (q\<lparr>q_maxCookTime := Some []\<rparr>) = getRecipes txt st (q\<lparr>q_maxCookTime := None\<rparr>) \<and>
   getRecipes txt st (q\<lparr>q_maxCalories := Some []\<rparr>) = getRecipes txt st (q\<lparr>q_maxCalories := None\<rparr>) \<and>
   getRecipes txt st (q\<lparr>q_ingredients := Some []\<rparr>) = getRecipes txt st (q\<lparr>q_ingredients := None\<rparr>)"
  by (simp add: buildFilter_def getRecipes_def)

theorem empty_string_is_absent_witness:
  "buildFilter (noQuery\<lparr>q_cuisine := Some []\<rparr>) = buildFilter (noQuery\<lparr>q_cuisine := None\<rparr>) \<and>
   buildFilter (noQuery\<lparr>q_maxCalories := Some []\<rparr>) = buildFilter (noQuery\<lparr>q_maxCalories := None\<rparr>) \<and>
   getRecipes titleIs kitchen (noQuery\<lparr>q_ingredients := Some []\<rparr>)
     = getRecipes titleIs kitchen (noQuery\<lparr>q_ingredients := None\<rparr>)"
  using empty_string_is_absent [of noQuery titleIs kitchen] by blast

lemma getRecipes_uncastable:
  "\<not> list_all castable (buildFilter q) \<Longrightarrow> getRecipes txt st q = Inl ServerError"
  by (simp add: getRecipes_def)

text \<open>
  A numeric filter parameter (maxPrepTime, maxCookTime, maxCalories) whose value is not
  empty and has no number for \<^verbatim>\<open>parseInt\<close> to read: the filter object carries the condition
  \<^verbatim>\<open>$lte: NaN\<close> on that field, no recipe satisfies it, the cast of the query fails and the
  listing answers with a server error.
\<close>

lemma malformed_number_fails:
  assumes "s \<noteq> []" and "parseIntString s = NaN"
  shows "(PrepTime, Lte NaN) \<in> set (buildFilter (q\<lparr>q_maxPrepTime := Some s\<rparr>)) \<and>
         (CookTime, Lte NaN) \<in> set (buildFilter (q\<lparr>q_maxCookTime := Some s\<rparr>)) \<and>
         (Calories, Lte NaN) \<in> set (buildFilter (q\<lparr>q_maxCalories := Some s\<rparr>)) \<and>
         \<not> matches txt (buildFilter (q\<lparr>q_maxPrepTime := Some s\<rparr>)) r \<and>
         \<not> matches txt (buildFilter (q\<lparr>q_maxCookTime := Some s\<rparr>)) r \<and>
         \<not> matches txt (buildFilter (q\<lparr>q_maxCalories := Some s\<rparr>)) r \<and>
         getRecipes txt st (q\<lparr>q_maxPrepTime := Some s\<rparr>) = Inl ServerError \<and>
         getRecipes txt st (q\<lparr>q_maxCookTime := Some s\<rparr>) = Inl ServerError \<and>
         getRecipes txt st (q\<lparr>q_maxCalories := Some s\<rparr>) = Inl ServerError"
proof -
  have prep: "(PrepTime, Lte NaN) \<in> set (buildFilter (q\<lparr>q_maxPrepTime := Some s\<rparr>))"
    using assms by (simp add: buildFilter_def whenTruthy_Some)
  have cook: "(CookTime, Lte NaN) \<in> set (buildFilter (q\<lparr>q_maxCookTime := Some s\<rparr>))"
    using assms by (simp add: buildFilter_def whenTruthy_Some)
  have cal: "(Calories, Lte NaN) \<in> set (buildFilter (q\<lparr>q_maxCalories := Some s\<rparr>))"
    using assms by (simp add: buildFilter_def whenTruthy_Some)
  have no_match: "\<not> matches txt f r" if "(p, Lte NaN) \<in> set f" for p f
  proof -
    have "\<not> holds txt r (p, Lte NaN)" by (cases p) (simp_all split: option.splits)
    with that show ?thesis by (auto simp: matches_def list_all_iff)
  qed
  have no_cast: "\<not> list_all castable f" if "(p, Lte NaN) \<in> set f" for p f
    using that by (auto simp: list_all_iff intro!: bexI [of _ "(p, Lte NaN)"])
  show ?thesis
    using prep cook cal no_match [OF prep] no_match [OF cook] no_match [OF cal]
      getRecipes_uncastable [OF no_cast [OF prep]] getRecipes_uncastable [OF no_cast [OF cook]]
      getRecipes_uncastable [OF no_cast [OF cal]]
    by simp
qed

lemma parseInt_abc: "parseIntString ''abc'' = NaN"
  by (simp add: parseIntString_def isWhiteSpace_def digitValue_def)

lemma kitchen_listing:
  "getRecipes titleIs kitchen noQuery
     = Inr \<lparr>listed = [carbonara],
            pagination = \<lparr>currentPage = 1, totalPages = 1, totalRecipes = 1,
                          hasNext = False, hasPrev = False\<rparr>\<rparr>"
proof -
  have "ceilDiv 1 12 = 1" using ceilDiv_eq [of 1 12] by simp
  then show ?thesis
    by (simp add: buildFilter_def noQuery_def matches_def getRecipes_def parseInt_def
        orDefault_def kitchen_def sortBy_def findMatching_def toNumber_exact)
qed

text \<open>
  C9 does not hold of the code. The claim says that a malformed value of a numeric filter
  parameter is treated as if the parameter were absent. At maxPrepTime \<open>abc\<close> the filter
  object is not the empty one of the absent parameter but holds \<^verbatim>\<open>$lte: NaN\<close>, the recipe
  that the empty filter matches does not match it, and the listing answers 500 where the
  listing without the parameter answers with the recipe. The numeric parameter \<^verbatim>\<open>page\<close> of
  the same handler is guarded (\<^verbatim>\<open>parseInt(...) || 1\<close>): there \<open>abc\<close> is treated as absent.
\<close>

theorem malformed_number_is_not_absent:
  "buildFilter (noQuery\<lparr>q_maxPrepTime := Some ''abc''\<rparr>) = [(PrepTime, Lte NaN)] \<and>
   buildFilter (noQuery\<lparr>q_maxPrepTime := None\<rparr>) = [] \<and>
   \<not> matches titleIs (buildFilter (noQuery\<lparr>q_maxPrepTime := Some ''abc''\<rparr>)) carbonara \<and>
   matches titleIs (buildFilter (noQuery\<lparr>q_maxPrepTime := None\<rparr>)) carbonara \<and>
   getRecipes titleIs kitchen (noQuery\<lparr>q_maxPrepTime := Some ''abc''\<rparr>) = Inl ServerError \<and>
   getRecipes titleIs kitchen (noQuery\<lparr>q_maxPrepTime := None\<rparr>)
     = Inr \<lparr>listed = [carbonara],
            pagination = \<lparr>currentPage = 1, totalPages = 1, totalRecipes = 1,
                          hasNext = False, hasPrev = False\<rparr>\<rparr> \<and>
   getRecipes titleIs kitchen (noQuery\<lparr>q_page := Some ''abc''\<rparr>)
     = getRecipes titleIs kitchen (noQuery\<lparr>q_page := None\<rparr>)"
proof -
  have same: "noQuery\<lparr>q_maxPrepTime := None\<rparr> = noQuery" by (simp add: noQuery_def)
  have abc: "buildFilter (noQuery\<lparr>q_maxPrepTime := Some ''abc''\<rparr>) = [(PrepTime, Lte NaN)]"
    by (simp add: buildFilter_def noQuery_def whenTruthy_Some parseInt_abc)
  have none: "buildFilter noQuery = []" by (simp add: buildFilter_def noQuery_def)
  have fails: "getRecipes titleIs kitchen (noQuery\<lparr>q_maxPrepTime := Some ''abc''\<rparr>)
                 = Inl ServerError"
    by (rule getRecipes_uncastable) (simp add: abc)
  have page: "getRecipes titleIs kitchen (noQuery\<lparr>q_page := Some ''abc''\<rparr>)
                = getRecipes titleIs kitchen (noQuery\<lparr>q_page := None\<rparr>)"
    by (simp add: getRecipes_def parseInt_def parseInt_abc buildFilter_def)
  show ?thesis
    using abc none fails page kitchen_listing by (simp add: same matches_def)
qed

theorem malformed_number_is_not_absent_witness:
  "getRecipes titleIs kitchen (noQuery\<lparr>q_maxPrepTime := Some ''abc''\<rparr>)
     \<noteq> getRecipes titleIs kitchen (noQuery\<lparr>q_maxPrepTime := None\<rparr>)"
  using malformed_number_is_not_absent by simp

section \<open>Properties of the listing\<close>

lemma mset_insertBy: "mset (insertBy before x xs) = add_mset x (mset xs)"
  by (induction xs) auto

lemma mset_sortBy: "mset (sortBy before xs) = mset xs"
  by (induction xs) (auto simp: sortBy_def mset_insertBy)

lemma set_insertBy: "set (insertBy before x xs) = insert x (set xs)"
  by (induction xs) auto

lemma length_sortBy: "length (sortBy before xs) = length xs"
  using mset_sortBy [of before xs] by (metis size_mset)

lemma sorted_insertBy:
  assumes total: "\<And>a b. before a b \<or> before b a"
    and trans: "\<And>a b c. before a b \<Longrightarrow> before b c \<Longrightarrow> before a c"
  shows "sorted_wrt before xs \<Longrightarrow> sorted_wrt before (insertBy before x xs)"
proof (induction xs)
  case Nil
  then show ?case by simp
next
  case (Cons y ys)
  show ?case
  proof (cases "before x y")
    case True
    with Cons.prems show ?thesis by (auto intro: trans)
  next
    case False
    then have "before y x" using total by blast
    with Cons False show ?thesis by (auto simp: set_insertBy)
  qed
qed

lemma sorted_sortBy:
  assumes "\<And>a b. before a b \<or> before b a"
    and "\<And>a b c. before a b \<Longrightarrow> before b c \<Longrightarrow> before a c"
  shows "sorted_wrt before (sortBy before xs)"
proof (induction xs)
  case Nil
  show ?case by (simp add: sortBy_def)
next
  case (Cons x xs)
  have "sortBy before (x # xs) = insertBy before x (sortBy before xs)"
    by (simp add: sortBy_def)
  with Cons show ?case using sorted_insertBy [OF assms] by simp
qed

lemma sorted_createdDesc: "sorted_wrt createdDesc (sortBy createdDesc xs)"
  by (rule sorted_sortBy) (auto simp: createdDesc_def)

lemma findMatching_satisfiesAll:
  "findMatching txt (buildFilter q) st = filter (satisfiesAll txt q) (recipes st)"
  by (simp add: findMatching_def matches_satisfiesAll [abs_def])

text \<open>
  C4, as amended. For the page number \<open>p \<ge> 1\<close> and the page size \<open>s \<ge> 1\<close> that the handler
  reads from the query (1 and 12 when the parameter is absent, unreadable or 0), with
  \<open>p * s \<le> 2^53\<close>, fewer than \<open>2^53\<close> recipes in the store and a filter the store can
  cast: the listing answers with the slice \<open>[(p-1)*s, p*s)\<close> of the recipes that satisfy
  every supplied constraint, put in order of creation time, newest first, together with
  \<open>totalPages = \<lceil>total / s\<rceil>\<close>, \<open>hasNext = (p < totalPages)\<close> and \<open>hasPrev = (p > 1)\<close>. The
  slice holds \<open>min s (total - (p-1)*s)\<close> recipes. A page beyond the last one is answered
  with the empty list and \<open>hasNext = False\<close>; it is an answer, not a failure.
\<close>

theorem paginated_listing:
  assumes page: "orDefault (parseInt (q_page q)) 1 = p" "1 \<le> p"
    and size: "orDefault (parseInt (q_limit q)) 12 = s" "1 \<le> s"
    and bound: "p * s \<le> 2 ^ 53" "int (length (recipes st)) < 2 ^ 53"
    and cast: "list_all castable (buildFilter q)"
  shows "\<exists>ordered pages.
           mset ordered = mset (filter (satisfiesAll txt q) (recipes st)) \<and>
           sorted_wrt (\<lambda>a b. createdAt a \<ge> createdAt b) ordered \<and>
           pages = \<lceil>(of_int (int (length (filter (satisfiesAll txt q) (recipes st)))) :: rat)
                      / of_int s\<rceil> \<and>
           getRecipes txt st q =
             Inr \<lparr>listed = take (nat s) (drop (nat ((p - 1) * s)) ordered),
                  pagination =
                    \<lparr>currentPage = p, totalPages = pages,
                     totalRecipes = int (length (filter (satisfiesAll txt q) (recipes st))),
                     hasNext = (p < pages), hasPrev = (1 < p)\<rparr>\<rparr> \<and>
           length (take (nat s) (drop (nat ((p - 1) * s)) ordered))
             = min (nat s) (length (filter (satisfiesAll txt q) (recipes st)) - nat ((p - 1) * s)) \<and>
           (pages < p \<longrightarrow> take (nat s) (drop (nat ((p - 1) * s)) ordered) = [] \<and> \<not> p < pages)"
proof -
  define hits where "hits = filter (satisfiesAll txt q) (recipes st)"
  define ordered where "ordered = sortBy createdDesc hits"
  define pages where "pages = ceilDiv (int (length hits)) s"
  have found: "findMatching txt (buildFilter q) st = hits"
    by (simp add: hits_def findMatching_satisfiesAll)
  have "length hits \<le> length (recipes st)" by (simp add: hits_def)
  then have few: "int (length hits) < 2 ^ 53" using bound(2) by linarith
  have "(p - 1) * s \<le> p * s" using size(2) by (simp add: mult_right_mono)
  then have skip_le: "(p - 1) * s \<le> 2 ^ 53" using bound(1) by linarith
  have skip_ge: "0 \<le> (p - 1) * s" using page(2) size(2) by simp
  then have nonneg: "\<not> (p - 1) * s < 0" by simp
  have "p * 1 \<le> p * s" using page(2) size(2) by (intro mult_left_mono) simp_all
  then have "p \<le> 2 ^ 53" using bound(1) by simp
  then have "\<bar>p - 1\<bar> \<le> 2 ^ 53" using page(2) by simp
  then have prev: "toNumber (p - 1) = p - 1" by (rule toNumber_exact)
  have "\<bar>(p - 1) * s\<bar> \<le> 2 ^ 53" using skip_le skip_ge by simp
  then have skip: "toNumber ((p - 1) * s) = (p - 1) * s" by (rule toNumber_exact)
  have pages_eq: "pages = \<lceil>(of_int (int (length hits)) :: rat) / of_int s\<rceil>"
    unfolding pages_def using few size(2) by (intro ceilDiv_exact) simp_all
  have perm: "mset ordered = mset hits" by (simp add: ordered_def mset_sortBy)
  have len: "length ordered = length hits" by (simp add: ordered_def length_sortBy)
  have sorted: "sorted_wrt (\<lambda>a b. createdAt a \<ge> createdAt b) ordered"
    using sorted_createdDesc [of hits] by (simp add: ordered_def createdDesc_def [abs_def])
  have answer: "getRecipes txt st q =
             Inr \<lparr>listed = take (nat s) (drop (nat ((p - 1) * s)) ordered),
                  pagination = \<lparr>currentPage = p, totalPages = pages,
                                totalRecipes = int (length hits),
                                hasNext = (p < pages), hasPrev = (1 < p)\<rparr>\<rparr>"
    using page size cast nonneg
    by (simp add: getRecipes_def found prev skip ordered_def pages_def Let_def)
  have beyond: "take (nat s) (drop (nat ((p - 1) * s)) ordered) = []" if "pages < p"
  proof -
    from that have "pages \<le> p - 1" by simp
    then have "pages * s \<le> (p - 1) * s" using size(2) by (simp add: mult_right_mono)
    moreover have "(of_int (int (length hits)) :: rat) / of_int s \<le> of_int pages"
      unfolding pages_eq by (rule le_of_int_ceiling)
    then have "(of_int (int (length hits)) :: rat) \<le> of_int pages * of_int s"
      using size(2) by (simp add: pos_divide_le_eq)
    then have "(of_int (int (length hits)) :: rat) \<le> of_int (pages * s)" by simp
    then have "int (length hits) \<le> pages * s" by (simp only: of_int_le_iff)
    ultimately have "length ordered \<le> nat ((p - 1) * s)" using len by linarith
    then show ?thesis by simp
  qed
  have "length (take (nat s) (drop (nat ((p - 1) * s)) ordered))
             = min (nat s) (length hits - nat ((p - 1) * s))"
    by (simp add: len min.commute)
  with perm sorted answer beyond pages_eq show ?thesis
    unfolding hits_def by (intro exI conjI impI) auto
qed

lemma pageOf_filter: "buildFilter (pageOf p) = [(Cuisine, Eq ''Italian'')]"
  by (simp add: buildFilter_def pageOf_def noQuery_def whenTruthy_Some)

lemma italian_trimmed: "trim ''Italian'' = ''Italian''"
  by (simp add: trim_def isWhiteSpace_def)

lemma pageOf_satisfiesAll: "satisfiesAll titleIs (pageOf p) r \<longleftrightarrow> cuisine r = ''Italian''"
  by (simp add: satisfiesAll_def supplied_def pageOf_def noQuery_def italian_trimmed)

lemma pantry_length: "int (length (recipes pantry)) < 2 ^ 53"
  by (simp add: pantry_def)

lemma pantry_hits: "length (filter (\<lambda>r. cuisine r = ''Italian'') (recipes pantry)) = 25"
  by (simp add: pantry_def upt_rec [of _ "numeral n" for n] upt_rec [of 1])

lemma pageOf_limit: "orDefault (parseInt (q_limit (pageOf p))) 12 = 12"
  by (simp add: pageOf_def parseInt_def parseIntString_def isWhiteSpace_def digitValue_def
      orDefault_def toNumber_exact)

lemma pageOf_page:
  "orDefault (parseInt (q_page (pageOf ''1''))) 1 = 1"
  "orDefault (parseInt (q_page (pageOf ''3''))) 1 = 3"
  "orDefault (parseInt (q_page (pageOf ''4''))) 1 = 4"
  by (simp_all add: pageOf_def parseInt_def parseIntString_def isWhiteSpace_def digitValue_def
      orDefault_def toNumber_exact)

lemma twenty_five_by_twelve: "\<lceil>(of_int (int 25) :: rat) / of_int 12\<rceil> = 3"
  by code_simp

theorem paginated_listing_witness:
  "(\<exists>l. getRecipes titleIs pantry (pageOf ''1'') = Inr l \<and> length (listed l) = 12 \<and>
        list_all (\<lambda>r. cuisine r = ''Italian'') (listed l) \<and> totalRecipes (pagination l) = 25 \<and>
        totalPages (pagination l) = 3 \<and> hasNext (pagination l) \<and> \<not> hasPrev (pagination l)) \<and>
   (\<exists>l. getRecipes titleIs pantry (pageOf ''3'') = Inr l \<and> length (listed l) = 1 \<and>
        list_all (\<lambda>r. cuisine r = ''Italian'') (listed l) \<and> totalRecipes (pagination l) = 25 \<and>
        totalPages (pagination l) = 3 \<and> \<not> hasNext (pagination l) \<and> hasPrev (pagination l)) \<and>
   (\<exists>l. getRecipes titleIs pantry (pageOf ''4'') = Inr l \<and> listed l = [] \<and>
        totalRecipes (pagination l) = 25 \<and>
        totalPages (pagination l) = 3 \<and> \<not> hasNext (pagination l) \<and> hasPrev (pagination l))"
proof -
  have cast: "list_all castable (buildFilter (pageOf w))" for w
    by (simp add: pageOf_filter)
  have twelve: "(1::int) \<le> 12" by simp
  have shape:
    "\<exists>l. getRecipes titleIs pantry (pageOf w) = Inr l \<and>
         length (listed l) = min 12 (25 - nat ((p - 1) * 12)) \<and>
         list_all (\<lambda>r. cuisine r = ''Italian'') (listed l) \<and>
         totalRecipes (pagination l) = 25 \<and> totalPages (pagination l) = 3 \<and>
         hasNext (pagination l) = (p < 3) \<and> hasPrev (pagination l) = (1 < p)"
    if "orDefault (parseInt (q_page (pageOf w))) 1 = p" "1 \<le> p" "p * 12 \<le> 2 ^ 53" for w p
  proof -
    note paginated_listing [OF that(1,2) pageOf_limit twelve that(3) pantry_length cast,
        of titleIs, unfolded pageOf_satisfiesAll pantry_hits twenty_five_by_twelve]
    then obtain ordered pages where
      perm: "mset ordered = mset (filter (\<lambda>r. cuisine r = ''Italian'') (recipes pantry))"
      and pages: "pages = 3"
      and answer: "getRecipes titleIs pantry (pageOf w) =
             Inr \<lparr>listed = take (nat 12) (drop (nat ((p - 1) * 12)) ordered),
                  pagination =
                    \<lparr>currentPage = p, totalPages = pages, totalRecipes = int 25,
                     hasNext = (p < pages), hasPrev = (1 < p)\<rparr>\<rparr>"
      and len: "length (take (nat 12) (drop (nat ((p - 1) * 12)) ordered))
                  = min (nat 12) (25 - nat ((p - 1) * 12))"
      by blast
    have "set ordered = set (filter (\<lambda>r. cuisine r = ''Italian'') (recipes pantry))"
      using perm by (rule mset_eq_setD)
    then have "\<forall>r \<in> set ordered. cuisine r = ''Italian''" by simp
    moreover have "set (take (nat 12) (drop (nat ((p - 1) * 12)) ordered)) \<subseteq> set ordered"
      by (meson set_take_subset set_drop_subset subset_trans)
    ultimately have italian:
      "list_all (\<lambda>r. cuisine r = ''Italian'') (take (nat 12) (drop (nat ((p - 1) * 12)) ordered))"
      unfolding list_all_iff by blast
    have len': "length (take (nat 12) (drop (nat ((p - 1) * 12)) ordered))
                  = min 12 (25 - nat ((p - 1) * 12))"
      unfolding len by simp
    define l where "l = \<lparr>listed = take (nat 12) (drop (nat ((p - 1) * 12)) ordered),
                          pagination =
                            \<lparr>currentPage = p, totalPages = pages, totalRecipes = int 25,
                             hasNext = (p < pages), hasPrev = (1 < p)\<rparr>\<rparr>"
    have answered: "getRecipes titleIs pantry (pageOf w) = Inr l"
      unfolding l_def by (rule answer)
    have slice: "listed l = take (nat 12) (drop (nat ((p - 1) * 12)) ordered)"
      by (simp add: l_def)
    have size: "length (listed l) = min 12 (25 - nat ((p - 1) * 12))"
      unfolding slice by (rule len')
    have cuisines: "list_all (\<lambda>r. cuisine r = ''Italian'') (listed l)"
      unfolding slice by (rule italian)
    have meta: "totalRecipes (pagination l) = 25 \<and> totalPages (pagination l) = 3 \<and>
                hasNext (pagination l) = (p < 3) \<and> hasPrev (pagination l) = (1 < p)"
      by (simp add: l_def pages)
    show ?thesis using answered size cuisines meta by blast
  qed
  have a: "\<exists>l. getRecipes titleIs pantry (pageOf ''1'') = Inr l \<and> length (listed l) = 12 \<and>
        list_all (\<lambda>r. cuisine r = ''Italian'') (listed l) \<and> totalRecipes (pagination l) = 25 \<and>
        totalPages (pagination l) = 3 \<and> hasNext (pagination l) \<and> \<not> hasPrev (pagination l)"
    using shape [OF pageOf_page(1)] by simp
  have b: "\<exists>l. getRecipes titleIs pantry (pageOf ''3'') = Inr l \<and> length (listed l) = 1 \<and>
        list_all (\<lambda>r. cuisine r = ''Italian'') (listed l) \<and> totalRecipes (pagination l) = 25 \<and>
        totalPages (pagination l) = 3 \<and> \<not> hasNext (pagination l) \<and> hasPrev (pagination l)"
    using shape [OF pageOf_page(2)] by simp
  have c: "\<exists>l. getRecipes titleIs pantry (pageOf ''4'') = Inr l \<and> listed l = [] \<and>
        totalRecipes (pagination l) = 25 \<and>
        totalPages (pagination l) = 3 \<and> \<not> hasNext (pagination l) \<and> hasPrev (pagination l)"
    using shape [OF pageOf_page(3)] by auto
  from a b c show ?thesis by blast
qed

text \<open>
  C4 as stated does not hold for every page size. The handler reads the page size with
  \<^verbatim>\<open>parseInt(req.query.limit) || 12\<close>, which lets a negative number through. At the page
  size \<open>-5\<close>, with twenty-five matching recipes: page 1 is answered with five recipes
  (the slice \<open>[0, -5)\<close> of the claim is empty) and \<open>totalPages = -5\<close>; page 2 asks the store
  to skip \<open>-5\<close> recipes, which it refuses, and the answer is a server error, where the
  claim says that a page beyond the last one is not an error.
\<close>

theorem negative_page_size:
  "(\<exists>l. getRecipes titleIs pantry (backwards ''1'') = Inr l \<and> length (listed l) = 5 \<and>
        totalRecipes (pagination l) = 25 \<and> totalPages (pagination l) = - 5 \<and>
        \<not> hasNext (pagination l)) \<and>
   getRecipes titleIs pantry (backwards ''2'') = Inl ServerError"
proof -
  have filter: "buildFilter (backwards p) = [(Cuisine, Eq ''Italian'')]" for p
    by (simp add: buildFilter_def backwards_def noQuery_def whenTruthy_Some)
  have limit: "orDefault (parseInt (q_limit (backwards p))) 12 = - 5" for p
    by (simp add: backwards_def parseInt_def parseIntString_def isWhiteSpace_def digitValue_def
        orDefault_def toNumber_exact)
  have page:
    "orDefault (parseInt (q_page (backwards ''1''))) 1 = 1"
    "orDefault (parseInt (q_page (backwards ''2''))) 1 = 2"
    by (simp_all add: backwards_def parseInt_def parseIntString_def isWhiteSpace_def
        digitValue_def orDefault_def toNumber_exact)
  have hits: "findMatching titleIs [(Cuisine, Eq ''Italian'')] pantry
                = filter (\<lambda>r. cuisine r = ''Italian'') (recipes pantry)"
    by (simp add: findMatching_def matches_def [abs_def] italian_trimmed)
  have pages: "ceilDiv 25 (- 5) = - 5" by code_simp
  have second: "getRecipes titleIs pantry (backwards ''2'') = Inl ServerError"
    by (simp add: getRecipes_def filter limit page toNumber_exact)
  have first: "getRecipes titleIs pantry (backwards ''1'')
     = Inr \<lparr>listed = take 5 (sortBy createdDesc
                                 (filter (\<lambda>r. cuisine r = ''Italian'') (recipes pantry))),
            pagination = \<lparr>currentPage = 1, totalPages = - 5, totalRecipes = 25,
                          hasNext = False, hasPrev = False\<rparr>\<rparr>"
    by (simp add: getRecipes_def filter limit page toNumber_exact hits pantry_hits pages)
  show ?thesis
    using second by (simp add: first length_sortBy pantry_hits)
qed

section \<open>Properties of the popular listing\<close>



lemma keyLess_asym: "keyLess a b \<Longrightarrow> \<not> keyLess b a"
  by (cases a; cases b) auto

lemma keyLess_irrefl [simp]: "\<not> keyLess a a"
  by (cases a) auto



lemma largestRating_Max:
  "largestRating rs = (if rs = [] then None else Some (Max (rating ` set rs)))"
proof (induction rs)
  case Nil
  show ?case by simp
next
  case (Cons e es)
  show ?case
  proof (cases "es = []")
    case True
    then show ?thesis by simp
  next
    case False
    with Cons have "largestRating es = Some (Max (rating ` set es))" by simp
    moreover have "Max (insert (rating e) (rating ` set es)) = max (rating e) (Max (rating ` set es))"
      using False by (intro Max_insert) auto
    ultimately show ?thesis by simp
  qed
qed







section \<open>The invariant of the ratings\<close>










lemma invariant_saveUser [simp]: "oneRatingPerUser (saveUser st u) = oneRatingPerUser st"
  by (simp add: oneRatingPerUser_def saveUser_def)





text \<open>
  Through the copy of the schema that declares the ratings path, the creation stores the
  ratings array of the body as it is: from the empty store, the body \<open>twiceRatedBody\<close>
  gives a recipe with two rating entries of user 7. Through \<^verbatim>\<open>models/Recipe.js\<close> the same
  request stores the recipe without ratings.
\<close>

lemma create_where_ratings_declared:
  "recipes (snd (createRecipeWith UnnamedCopy emptyStore 1 1000 9 twiceRatedBody))
     = [carbonara\<lparr>ratings := [\<lparr>rating_user = 7, rating = 5, rating_createdAt = 1000\<rparr>,
                               \<lparr>rating_user = 7, rating = 2, rating_createdAt = 1000\<rparr>]\<rparr>] \<and>
   \<not> oneRatingPerUser (snd (createRecipeWith UnnamedCopy emptyStore 1 1000 9 twiceRatedBody)) \<and>
   recipes (snd (createRecipe emptyStore 1 1000 9 twiceRatedBody)) = [carbonara]"
proof -
  have "recipes (snd (createRecipeWith UnnamedCopy emptyStore 1 1000 9 twiceRatedBody))
     = [carbonara\<lparr>ratings := [\<lparr>rating_user = 7, rating = 5, rating_createdAt = 1000\<rparr>,
                               \<lparr>rating_user = 7, rating = 2, rating_createdAt = 1000\<rparr>]\<rparr>]"
    by (simp add: createRecipeWith_def validBody_def validRecipe_def newRecipe_def
      newRecipeWith_def twiceRatedBody_def carbonaraBody_def carbonara_def emptyStore_def
      findRecipeById_def difficulties_def diets_def dateOr_def trim_def isWhiteSpace_def Let_def)
  moreover have "recipes (snd (createRecipe emptyStore 1 1000 9 twiceRatedBody)) = [carbonara]"
    by (simp add: createRecipe_def createRecipeWith_def validBody_def validRecipe_def
      newRecipe_def newRecipeWith_def twiceRatedBody_def carbonaraBody_def carbonara_def
      emptyStore_def findRecipeById_def difficulties_def diets_def dateOr_def trim_def
      isWhiteSpace_def Let_def)
  ultimately show ?thesis by (simp add: oneRatingPerUser_def)
qed



section \<open>Properties of the average rating\<close>



















end
